theory Spec2Isabelle
  imports Main "HOL-Library.Sublist"
begin

section \<open>Values of the knowledge document\<close>

text \<open>
  A Python string is a sequence of Unicode code points. A string of the program is the
  list of its code points, integers from 0 to 0x10FFFF; \<open>lit\<close> gives the string of a
  literal written in ASCII.
\<close>

type_synonym str = "int list"

definition lit :: "string \<Rightarrow> str" where
  "lit s = map of_char s"

text \<open>
  The portfolio is whatever \<^verbatim>\<open>json.load\<close> returns: a tree of Python values. An object
  is held as the list of its items in insertion order, as a Python \<^verbatim>\<open>dict\<close> iterates
  them. Numbers with a fraction or an exponent (Python floats) are not part of the
  model.
\<close>

datatype json =
    JNull
  | JBool bool
  | JInt int
  | JStr str
  | JArr "json list"
  | JObj "(str \<times> json) list"

datatype error =
    AttributeError
  | TypeError
  | JSONDecodeError
  | APIError str

text \<open>Truth value of a Python object, as \<^verbatim>\<open>if x:\<close> and \<^verbatim>\<open>not x\<close> test it.\<close>

fun truthy :: "json \<Rightarrow> bool" where
  "truthy JNull = False"
| "truthy (JBool b) = b"
| "truthy (JInt i) = (i \<noteq> 0)"
| "truthy (JStr s) = (s \<noteq> [])"
| "truthy (JArr xs) = (xs \<noteq> [])"
| "truthy (JObj kvs) = (kvs \<noteq> [])"

text \<open>\<^verbatim>\<open>d.get(k, default)\<close> on a dict, and on any object (only a dict has \<^verbatim>\<open>get\<close>).\<close>

definition dict_get :: "(str \<times> json) list \<Rightarrow> str \<Rightarrow> json \<Rightarrow> json" where
  "dict_get kvs k dflt = (case map_of kvs k of Some v \<Rightarrow> v | None \<Rightarrow> dflt)"

fun py_get :: "json \<Rightarrow> str \<Rightarrow> json \<Rightarrow> error + json" where
  "py_get (JObj kvs) k dflt = Inr (dict_get kvs k dflt)"
| "py_get _ k dflt = Inl AttributeError"

text \<open>
  Iteration (\<^verbatim>\<open>for x in v\<close>): a list gives its elements, a string its characters, a dict
  its keys; nothing else is iterable.
\<close>

fun py_iter :: "json \<Rightarrow> error + json list" where
  "py_iter (JArr xs) = Inr xs"
| "py_iter (JStr s) = Inr (map (\<lambda>c. JStr [c]) s)"
| "py_iter (JObj kvs) = Inr (map (\<lambda>kv. JStr (fst kv)) kvs)"
| "py_iter _ = Inl TypeError"

section \<open>The Unicode character data\<close>

text \<open>
  \<^verbatim>\<open>str.title\<close> and \<^verbatim>\<open>repr\<close> read properties of characters from the Unicode character
  database of the Python interpreter. The database is not part of the program; every
  function that reads it takes it as the parameter \<open>ucd\<close>: which characters are cased
  and which are case-ignorable, the full title-case and lower-case mapping of a
  character (one to three characters), and which characters are printable.
\<close>

record unicode_data =
  cased :: "int \<Rightarrow> bool"
  case_ignorable :: "int \<Rightarrow> bool"
  to_title_full :: "int \<Rightarrow> str"
  to_lower_full :: "int \<Rightarrow> str"
  printable :: "int \<Rightarrow> bool"

section \<open>Text operations\<close>

text \<open>\<^verbatim>\<open>sep.join(xs)\<close> on a list of strings.\<close>

fun join :: "str \<Rightarrow> str list \<Rightarrow> str" where
  "join sep [] = []"
| "join sep [x] = x"
| "join sep (x # y # ys) = x @ sep @ join sep (y # ys)"

text \<open>\<^verbatim>\<open>sep.join(v)\<close> on any object: every item of the iteration must be a string.\<close>

fun str_items :: "json list \<Rightarrow> error + str list" where
  "str_items [] = Inr []"
| "str_items (JStr s # vs) =
     (case str_items vs of Inl e \<Rightarrow> Inl e | Inr ss \<Rightarrow> Inr (s # ss))"
| "str_items (_ # vs) = Inl TypeError"

definition py_join :: "str \<Rightarrow> json \<Rightarrow> error + str" where
  "py_join sep v =
     (case py_iter v of
        Inl e \<Rightarrow> Inl e
      | Inr items \<Rightarrow>
          (case str_items items of Inl e \<Rightarrow> Inl e | Inr ss \<Rightarrow> Inr (join sep ss)))"

text \<open>\<^verbatim>\<open>s.replace(a, b)\<close> for single characters \<open>a\<close> and \<open>b\<close>.\<close>

definition replace :: "int \<Rightarrow> int \<Rightarrow> str \<Rightarrow> str" where
  "replace a b s = map (\<lambda>c. if c = a then b else c) s"

text \<open>
  \<^verbatim>\<open>s.title()\<close>, as the interpreter computes it. A character is mapped to title case when
  the character before it is not cased (or there is none) and to lower case otherwise.
  The lower case of a capital sigma (U+03A3) is the final sigma (U+03C2) when a cased
  character precedes it and none follows it, case-ignorable characters skipped on both
  sides; it is the small sigma (U+03C3) otherwise. \<open>before_rev\<close> holds the characters
  already read, the last one first.
\<close>

definition final_sigma :: "unicode_data \<Rightarrow> str \<Rightarrow> str \<Rightarrow> bool" where
  "final_sigma ucd before_rev after =
     (case dropWhile (case_ignorable ucd) before_rev of
        [] \<Rightarrow> False
      | c # _ \<Rightarrow>
          cased ucd c \<and>
          (case dropWhile (case_ignorable ucd) after of
             [] \<Rightarrow> True
           | d # _ \<Rightarrow> \<not> cased ucd d))"

definition lower_ucs4 :: "unicode_data \<Rightarrow> str \<Rightarrow> str \<Rightarrow> int \<Rightarrow> str" where
  "lower_ucs4 ucd before_rev after c =
     (if c = 0x3A3 then [if final_sigma ucd before_rev after then 0x3C2 else 0x3C3]
      else to_lower_full ucd c)"

fun do_title :: "unicode_data \<Rightarrow> bool \<Rightarrow> str \<Rightarrow> str \<Rightarrow> str" where
  "do_title ucd previous_is_cased before_rev [] = []"
| "do_title ucd previous_is_cased before_rev (c # cs) =
     (if previous_is_cased then lower_ucs4 ucd before_rev cs c else to_title_full ucd c)
       @ do_title ucd (cased ucd c) (c # before_rev) cs"

definition title :: "unicode_data \<Rightarrow> str \<Rightarrow> str" where
  "title ucd s = do_title ucd False [] s"

subsection \<open>Rendering a value inside an f-string\<close>

function show_nat :: "nat \<Rightarrow> str" where
  "show_nat n = (if n < 10 then [48 + int n] else show_nat (n div 10) @ [48 + int (n mod 10)])"
  by pat_completeness auto
termination
  by (relation "measure id") auto

definition show_int :: "int \<Rightarrow> str" where
  "show_int i = (if i < 0 then lit ''-'' @ show_nat (nat (- i)) else show_nat (nat i))"

text \<open>The last \<open>n\<close> hexadecimal digits of a number, in lower case.\<close>

definition hex_digit :: "int \<Rightarrow> int" where
  "hex_digit d = (if d < 10 then 48 + d else 87 + d)"

fun hex_digits :: "nat \<Rightarrow> int \<Rightarrow> str" where
  "hex_digits 0 c = []"
| "hex_digits (Suc n) c = hex_digits n (c div 16) @ [hex_digit (c mod 16)]"

text \<open>
  \<^verbatim>\<open>repr\<close> of a string: single quotes, unless the text has a single quote and no double
  quote. The quote and the backslash (0x5C) are escaped; tab, newline and carriage
  return are written with their letter; the other ASCII control characters, and the
  characters from 0x7F on that are not printable, are written as \<^verbatim>\<open>\x\<close>, \<^verbatim>\<open>\u\<close> or \<^verbatim>\<open>\U\<close>
  with 2, 4 or 8 hexadecimal digits; every other character is kept.
\<close>

definition repr_char :: "unicode_data \<Rightarrow> int \<Rightarrow> int \<Rightarrow> str" where
  "repr_char ucd quote c =
     (if c = quote \<or> c = 0x5C then [0x5C, c]
      else if c = 0x09 then 0x5C # lit ''t''
      else if c = 0x0A then 0x5C # lit ''n''
      else if c = 0x0D then 0x5C # lit ''r''
      else if c < 0x20 \<or> c = 0x7F then 0x5C # lit ''x'' @ hex_digits 2 c
      else if c < 0x7F then [c]
      else if \<not> printable ucd c
        then (if c \<le> 0xFF then 0x5C # lit ''x'' @ hex_digits 2 c
              else if c \<le> 0xFFFF then 0x5C # lit ''u'' @ hex_digits 4 c
              else 0x5C # lit ''U'' @ hex_digits 8 c)
      else [c])"

definition str_repr :: "unicode_data \<Rightarrow> str \<Rightarrow> str" where
  "str_repr ucd s =
     (let quote = (if 0x27 \<in> set s \<and> 0x22 \<notin> set s then 0x22 else 0x27)
      in quote # concat (map (repr_char ucd quote) s) @ [quote])"

fun py_repr :: "unicode_data \<Rightarrow> json \<Rightarrow> str" where
  "py_repr ucd JNull = lit ''None''"
| "py_repr ucd (JBool b) = (if b then lit ''True'' else lit ''False'')"
| "py_repr ucd (JInt i) = show_int i"
| "py_repr ucd (JStr s) = str_repr ucd s"
| "py_repr ucd (JArr xs) = lit ''['' @ join (lit '', '') (map (py_repr ucd) xs) @ lit '']''"
| "py_repr ucd (JObj kvs) =
     lit ''{''
       @ join (lit '', '') (map (\<lambda>kv. str_repr ucd (fst kv) @ lit '': '' @ py_repr ucd (snd kv)) kvs)
       @ lit ''}''"

text \<open>\<^verbatim>\<open>f"{v}"\<close> is \<^verbatim>\<open>str(v)\<close>: a string is itself, anything else is its \<^verbatim>\<open>repr\<close>.\<close>

fun py_str :: "unicode_data \<Rightarrow> json \<Rightarrow> str" where
  "py_str ucd (JStr s) = s"
| "py_str ucd v = py_repr ucd v"

section \<open>Errors\<close>

text \<open>An exception ends the evaluation of everything that follows it.\<close>

definition and_then :: "error + 'a \<Rightarrow> ('a \<Rightarrow> error + 'b) \<Rightarrow> error + 'b" where
  "and_then m f = (case m of Inl e \<Rightarrow> Inl e | Inr x \<Rightarrow> f x)"

section \<open>Loading the portfolio\<close>

text \<open>
  What is at \<^verbatim>\<open>data/portfolio_knowledge.json\<close>: nothing, a file that \<^verbatim>\<open>json.load\<close>
  rejects, or a file it parses to a value.
\<close>

datatype portfolio_file = Absent | Unparseable | Parsed json

text \<open>
  \<^verbatim>\<open>load_portfolio\<close> takes the error messages shown on the page so far (\<^verbatim>\<open>st.error\<close> adds
  one) and returns them with the result.
\<close>

fun load_portfolio :: "portfolio_file \<Rightarrow> str list \<Rightarrow> (error + json) \<times> str list" where
  "load_portfolio Absent shown = (Inr (JObj []), shown @ [lit ''portfolio_knowledge.json not found''])"
| "load_portfolio Unparseable shown = (Inl JSONDecodeError, shown)"
| "load_portfolio (Parsed v) shown = (Inr v, shown)"

section \<open>Formatting the skills\<close>

definition humanize :: "unicode_data \<Rightarrow> str \<Rightarrow> str" where
  "humanize ucd category = title ucd (replace 95 32 category)"

text \<open>The loop of \<^verbatim>\<open>format_skills\<close>, with the list \<^verbatim>\<open>lines\<close> built so far.\<close>

fun format_skills_loop :: "unicode_data \<Rightarrow> (str \<times> json) list \<Rightarrow> str list \<Rightarrow> error + str list" where
  "format_skills_loop ucd [] lines = Inr lines"
| "format_skills_loop ucd ((category, skills) # rest) lines =
     and_then (py_join (lit '', '') skills)
       (\<lambda>joined. format_skills_loop ucd rest (lines @ [humanize ucd category @ lit '': '' @ joined]))"

fun format_skills :: "unicode_data \<Rightarrow> json \<Rightarrow> error + str" where
  "format_skills ucd (JObj items) =
     and_then (format_skills_loop ucd items []) (\<lambda>lines. Inr (join (lit ''\<newline>'') lines))"
| "format_skills ucd _ = Inl AttributeError"

section \<open>The system prompt\<close>

definition base_prompt :: "unicode_data \<Rightarrow> json \<Rightarrow> error + str" where
  "base_prompt ucd portfolio =
     and_then (py_get portfolio (lit ''name'') JNull) (\<lambda>name.
     and_then (py_get portfolio (lit ''summary'') JNull) (\<lambda>summary.
     and_then (py_get portfolio (lit ''education'') JNull) (\<lambda>education.
     and_then (py_get portfolio (lit ''current_status'') JNull) (\<lambda>current_status.
     and_then (py_get portfolio (lit ''goal'') JNull) (\<lambda>goal.
     and_then (py_get portfolio (lit ''skills'') (JObj [])) (\<lambda>skills_dict.
     and_then (format_skills ucd skills_dict) (\<lambda>skills.
       Inr (lit ''\<newline>You are an AI Portfolio Assistant representing '' @ py_str ucd name @ lit ''.\<newline>''
          @ lit ''\<newline>''
          @ lit ''Profile Summary:\<newline>''
          @ py_str ucd summary @ lit ''\<newline>''
          @ lit ''\<newline>''
          @ lit ''Education: '' @ py_str ucd education @ lit ''\<newline>''
          @ lit ''Current Status: '' @ py_str ucd current_status @ lit ''\<newline>''
          @ lit ''Career Goal: '' @ py_str ucd goal @ lit ''\<newline>''
          @ lit ''\<newline>''
          @ lit ''Skills:\<newline>''
          @ skills @ lit ''\<newline>''
          @ lit ''\<newline>''
          @ lit ''Rules:\<newline>''
          @ lit ''- Answer like a real interview candidate\<newline>''
          @ lit ''- Be confident, clear, and honest\<newline>''
          @ lit ''- Do NOT invent information\<newline>''
          @ lit ''- Use simple English or Hinglish\<newline>''))))))))"

text \<open>The text added for a selected project.\<close>

definition selected_block :: "unicode_data \<Rightarrow> json \<Rightarrow> error + str" where
  "selected_block ucd selected_project =
     and_then (py_get selected_project (lit ''name'') JNull) (\<lambda>name.
     and_then (py_get selected_project (lit ''type'') JNull) (\<lambda>type.
     and_then (py_get selected_project (lit ''category'') JNull) (\<lambda>category.
     and_then (py_get selected_project (lit ''problem'') JNull) (\<lambda>problem.
     and_then (py_get selected_project (lit ''solution'') JNull) (\<lambda>solution.
     and_then (py_get selected_project (lit ''tools'') JNull) (\<lambda>tools.
     and_then (py_get selected_project (lit ''outcome'') JNull) (\<lambda>outcome.
       Inr (lit ''\<newline>Selected Project (Explain in detail):\<newline>''
          @ lit ''\<newline>''
          @ lit ''Project Name: '' @ py_str ucd name @ lit ''\<newline>''
          @ lit ''Type: '' @ py_str ucd type @ lit ''\<newline>''
          @ lit ''Category: '' @ py_str ucd category @ lit ''\<newline>''
          @ lit ''\<newline>''
          @ lit ''Problem:\<newline>''
          @ py_str ucd problem @ lit ''\<newline>''
          @ lit ''\<newline>''
          @ lit ''Solution:\<newline>''
          @ py_str ucd solution @ lit ''\<newline>''
          @ lit ''\<newline>''
          @ lit ''Tools Used:\<newline>''
          @ py_str ucd tools @ lit ''\<newline>''
          @ lit ''\<newline>''
          @ lit ''Outcome:\<newline>''
          @ py_str ucd outcome @ lit ''\<newline>''
          @ lit ''\<newline>''
          @ lit ''Instructions:\<newline>''
          @ lit ''- Use STAR method if possible\<newline>''
          @ lit ''- Explain business impact\<newline>''
          @ lit ''- Answer follow-up technical questions\<newline>''))))))))"

text \<open>The list comprehension \<^verbatim>\<open>[f"- {p.get('name')} ({p.get('type')})" for p in ...]\<close>.\<close>

fun project_bullets :: "unicode_data \<Rightarrow> json list \<Rightarrow> error + str list" where
  "project_bullets ucd [] = Inr []"
| "project_bullets ucd (p # ps) =
     and_then (py_get p (lit ''name'') JNull) (\<lambda>name.
     and_then (py_get p (lit ''type'') JNull) (\<lambda>type.
     and_then (project_bullets ucd ps) (\<lambda>rest.
       Inr ((lit ''- '' @ py_str ucd name @ lit '' ('' @ py_str ucd type @ lit '')'') # rest))))"

definition project_list :: "unicode_data \<Rightarrow> json \<Rightarrow> error + str" where
  "project_list ucd portfolio =
     and_then (py_get portfolio (lit ''projects'') (JArr [])) (\<lambda>projects.
     and_then (py_iter projects) (\<lambda>ps.
     and_then (project_bullets ucd ps) (\<lambda>bullets.
       Inr (join (lit ''\<newline>'') bullets))))"

text \<open>\<^verbatim>\<open>selected_project=None\<close> is \<open>JNull\<close>.\<close>

definition create_system_prompt :: "unicode_data \<Rightarrow> json \<Rightarrow> json \<Rightarrow> error + str" where
  "create_system_prompt ucd portfolio selected_project =
     and_then (base_prompt ucd portfolio) (\<lambda>base.
       if truthy selected_project
       then and_then (selected_block ucd selected_project) (\<lambda>block. Inr (base @ block))
       else and_then (project_list ucd portfolio) (\<lambda>listing.
              Inr (base
                 @ lit ''\<newline>Projects:\<newline>''
                 @ listing @ lit ''\<newline>''
                 @ lit ''\<newline>''
                 @ lit ''Instructions:\<newline>''
                 @ lit ''- Answer about skills, projects, resume, career goals\<newline>''
                 @ lit ''- Suggest selecting a project for deep explanation\<newline>'')))"

section \<open>Messages, session state and the completion client\<close>

text \<open>
  A message sent to the client has a role and a content; an entry of the chat history
  has a time as well.
\<close>

record chat_message =
  role :: str
  content :: str

record history_entry = chat_message +
  time :: str

text \<open>
  \<^verbatim>\<open>st.session_state\<close>. A fresh session has neither key; \<^verbatim>\<open>main\<close> sets an absent
  \<^verbatim>\<open>chat_history\<close> to the empty list and an absent \<^verbatim>\<open>selected_project\<close> to \<^verbatim>\<open>None\<close>,
  which is what \<open>fresh_session\<close> holds. The selection is a text or \<^verbatim>\<open>None\<close>.
\<close>

record session_state =
  chat_history :: "history_entry list"
  selected_project :: "str option"

definition fresh_session :: session_state where
  "fresh_session = \<lparr>chat_history = [], selected_project = None\<rparr>"

text \<open>
  The arguments of \<^verbatim>\<open>client.responses.create\<close>; the temperature \<^verbatim>\<open>0.5\<close> is held in
  tenths. The client answers with the output text or raises.
\<close>

record request =
  model :: str
  input :: "chat_message list"
  temperature_tenths :: nat
  max_output_tokens :: nat

type_synonym client = "request \<Rightarrow> error + str"

section \<open>One reply\<close>

text \<open>
  The search loop of \<^verbatim>\<open>get_ai_response\<close>: the first project whose name equals the
  selection, or \<^verbatim>\<open>None\<close>. A name that is not a text is not equal to a text.
\<close>

fun find_selected :: "json list \<Rightarrow> str \<Rightarrow> error + json" where
  "find_selected [] selection = Inr JNull"
| "find_selected (p # ps) selection =
     and_then (py_get p (lit ''name'') JNull) (\<lambda>name.
       if name = JStr selection then Inr p else find_selected ps selection)"

definition resolve_selected :: "session_state \<Rightarrow> json \<Rightarrow> error + json" where
  "resolve_selected state portfolio =
     (case selected_project state of
        None \<Rightarrow> Inr JNull
      | Some selection \<Rightarrow>
          if truthy (JStr selection)
          then and_then (py_get portfolio (lit ''projects'') (JArr [])) (\<lambda>projects.
               and_then (py_iter projects) (\<lambda>ps. find_selected ps selection))
          else Inr JNull)"

text \<open>The loop that copies the history into \<^verbatim>\<open>messages\<close>.\<close>

fun append_history :: "chat_message list \<Rightarrow> history_entry list \<Rightarrow> chat_message list" where
  "append_history messages [] = messages"
| "append_history messages (msg # rest) =
     append_history (messages @ [\<lparr>role = role msg, content = content msg\<rparr>]) rest"

text \<open>
  \<^verbatim>\<open>get_ai_response\<close> returns the requests it sent to the client (none or one) and its
  result.
\<close>

definition get_ai_response ::
  "unicode_data \<Rightarrow> client \<Rightarrow> session_state \<Rightarrow> str \<Rightarrow> history_entry list \<Rightarrow> json
     \<Rightarrow> request list \<times> (error + str)" where
  "get_ai_response ucd client state user_message history portfolio =
     (case and_then (resolve_selected state portfolio) (create_system_prompt ucd portfolio) of
        Inl e \<Rightarrow> ([], Inl e)
      | Inr prompt \<Rightarrow>
          (let messages = [\<lparr>role = lit ''system'', content = prompt\<rparr>];
               messages = append_history messages history;
               messages = messages @ [\<lparr>role = lit ''user'', content = user_message\<rparr>];
               req = \<lparr>model = lit ''gpt-4.1-mini'', input = messages,
                      temperature_tenths = 5, max_output_tokens = 800\<rparr>
           in ([req], client req)))"

section \<open>The page\<close>

text \<open>
  What one run of \<^verbatim>\<open>main\<close> leaves behind: the session state, the error messages shown,
  the requests sent to the client, and the exception that ended the run, if any.
\<close>

record outcome =
  session :: session_state
  shown :: "str list"
  requests :: "request list"
  raised :: "error option"

fun project_names :: "json list \<Rightarrow> error + json list" where
  "project_names [] = Inr []"
| "project_names (p # ps) =
     and_then (py_get p (lit ''name'') JNull) (\<lambda>name.
     and_then (project_names ps) (\<lambda>rest. Inr (name # rest)))"

text \<open>The names offered by the select box: \<^verbatim>\<open>[p.get("name") for p in portfolio.get("projects", [])]\<close>.\<close>

definition project_name_options :: "json \<Rightarrow> error + json list" where
  "project_name_options portfolio =
     and_then (py_get portfolio (lit ''projects'') (JArr [])) (\<lambda>projects.
     and_then (py_iter projects) project_names)"

text \<open>
  The body of \<^verbatim>\<open>if user_input:\<close>. The two calls of \<^verbatim>\<open>datetime.now().isoformat()\<close> return
  \<open>t_user\<close> and \<open>t_reply\<close>.
\<close>

definition submit ::
  "unicode_data \<Rightarrow> client \<Rightarrow> str \<Rightarrow> str \<Rightarrow> json \<Rightarrow> session_state \<Rightarrow> str list \<Rightarrow> str \<Rightarrow> outcome" where
  "submit ucd client t_user t_reply portfolio state errors user_input =
     (let state1 = state\<lparr>chat_history := chat_history state
                      @ [\<lparr>role = lit ''user'', content = user_input, time = t_user\<rparr>]\<rparr>
      in case get_ai_response ucd client state1 user_input (butlast (chat_history state1)) portfolio of
           (sent, Inl e) \<Rightarrow>
             \<lparr>session = state1, shown = errors, requests = sent, raised = Some e\<rparr>
         | (sent, Inr reply) \<Rightarrow>
             \<lparr>session = state1\<lparr>chat_history := chat_history state1
                          @ [\<lparr>role = lit ''assistant'', content = reply, time = t_reply\<rparr>]\<rparr>,
              shown = errors, requests = sent, raised = None\<rparr>)"

text \<open>
  One run of \<^verbatim>\<open>main\<close>: \<open>selected\<close> is what the select box returns, \<open>user_input\<close> what the
  chat input returns (\<^verbatim>\<open>None\<close> when nothing was submitted). The select box is outside
  the program: the model takes any text for \<open>selected\<close>, among them the names the box
  offers.
\<close>

definition main ::
  "unicode_data \<Rightarrow> portfolio_file \<Rightarrow> client \<Rightarrow> str \<Rightarrow> str \<Rightarrow> session_state \<Rightarrow> str \<Rightarrow> str option
     \<Rightarrow> outcome" where
  "main ucd doc client t_user t_reply state selected user_input =
     (case load_portfolio doc [] of
        (Inl e, errors) \<Rightarrow>
          \<lparr>session = state, shown = errors, requests = [], raised = Some e\<rparr>
      | (Inr portfolio, errors) \<Rightarrow>
          if \<not> truthy portfolio
          then \<lparr>session = state, shown = errors, requests = [], raised = None\<rparr>
          else
            (case project_name_options portfolio of
               Inl e \<Rightarrow> \<lparr>session = state, shown = errors, requests = [], raised = Some e\<rparr>
             | Inr names \<Rightarrow>
                 (let state1 = state\<lparr>selected_project :=
                        (if selected = lit ''-- No Project Selected --'' then None else Some selected)\<rparr>
                  in case user_input of
                       None \<Rightarrow>
                         \<lparr>session = state1, shown = errors, requests = [], raised = None\<rparr>
                     | Some message \<Rightarrow>
                         if truthy (JStr message)
                         then submit ucd client t_user t_reply portfolio state1 errors message
                         else \<lparr>session = state1, shown = errors, requests = [], raised = None\<rparr>)))"

section \<open>The message sequence as the specification words it\<close>

text \<open>
  The system instruction, then every entry of the history in order with its role and
  content only, then the new user message.
\<close>

definition expected_messages :: "str \<Rightarrow> history_entry list \<Rightarrow> str \<Rightarrow> chat_message list" where
  "expected_messages prompt history user_message =
     \<lparr>role = lit ''system'', content = prompt\<rparr>
       # map (\<lambda>msg. \<lparr>role = role msg, content = content msg\<rparr>) history
       @ [\<lparr>role = lit ''user'', content = user_message\<rparr>]"

section \<open>The skills block as the specification words it\<close>

text \<open>
  A skills mapping of the profile: categories in insertion order, each with its
  sequence of skill names; \<open>skills_json\<close> is the value \<^verbatim>\<open>json.load\<close> gives for it.
  One line per category: the humanized category, a colon, the skills joined by commas.
\<close>

definition skills_json :: "(str \<times> str list) list \<Rightarrow> json" where
  "skills_json entries = JObj (map (\<lambda>entry. (fst entry, JArr (map JStr (snd entry)))) entries)"

definition skills_line :: "unicode_data \<Rightarrow> str \<times> str list \<Rightarrow> str" where
  "skills_line ucd entry = humanize ucd (fst entry) @ lit '': '' @ join (lit '', '') (snd entry)"

text \<open>\<^verbatim>\<open>s.split(sep)\<close> for a single character \<open>sep\<close>: the lines of a text.\<close>

fun split_on :: "int \<Rightarrow> str \<Rightarrow> str list" where
  "split_on sep [] = [[]]"
| "split_on sep (c # cs) =
     (if c = sep then [] # split_on sep cs
      else (case split_on sep cs of [] \<Rightarrow> [[c]] | l # ls \<Rightarrow> (c # l) # ls))"

section \<open>The ASCII characters\<close>

text \<open>
  What the Unicode character database says of the characters below 128: the cased ones
  are the 52 letters, title case and lower case map a letter to its capital and small
  form and keep every other character. \<open>ascii_data\<close> holds of a database that says so.
\<close>

definition ascii :: "str \<Rightarrow> bool" where
  "ascii s = list_all (\<lambda>c. 0 \<le> c \<and> c < 128) s"

definition is_upper :: "int \<Rightarrow> bool" where
  "is_upper c = (65 \<le> c \<and> c \<le> 90)"

definition is_lower :: "int \<Rightarrow> bool" where
  "is_lower c = (97 \<le> c \<and> c \<le> 122)"

definition to_upper :: "int \<Rightarrow> int" where
  "to_upper c = (if is_lower c then c - 32 else c)"

definition to_lower :: "int \<Rightarrow> int" where
  "to_lower c = (if is_upper c then c + 32 else c)"

definition ascii_data :: "unicode_data \<Rightarrow> bool" where
  "ascii_data ucd =
     list_all (\<lambda>c. cased ucd c = (is_upper c \<or> is_lower c) \<and>
                     to_title_full ucd c = [to_upper c] \<and>
                     to_lower_full ucd c = [to_lower c]) [0..127]"

text \<open>\<^verbatim>\<open>s.title()\<close> on ASCII text, by the rules above.\<close>

fun ascii_title :: "bool \<Rightarrow> str \<Rightarrow> str" where
  "ascii_title previous_is_cased [] = []"
| "ascii_title previous_is_cased (c # cs) =
     (if previous_is_cased then to_lower c else to_upper c)
       # ascii_title (is_upper c \<or> is_lower c) cs"

section \<open>The shape of a profile\<close>

text \<open>
  The profile of the specification: a mapping whose \<^verbatim>\<open>skills\<close> entry, when present, maps
  each category to a list of texts, and whose \<^verbatim>\<open>projects\<close> entry, when present, is a
  list of mappings. The content fields are not constrained: each may be absent or hold
  any value.
\<close>

fun is_dict :: "json \<Rightarrow> bool" where
  "is_dict (JObj kvs) = True"
| "is_dict _ = False"

fun is_str :: "json \<Rightarrow> bool" where
  "is_str (JStr s) = True"
| "is_str _ = False"

fun is_str_list :: "json \<Rightarrow> bool" where
  "is_str_list (JArr xs) = list_all is_str xs"
| "is_str_list _ = False"

fun skills_shape :: "json \<Rightarrow> bool" where
  "skills_shape (JObj items) = list_all (\<lambda>item. is_str_list (snd item)) items"
| "skills_shape _ = False"

fun projects_shape :: "json \<Rightarrow> bool" where
  "projects_shape (JArr ps) = list_all is_dict ps"
| "projects_shape _ = False"

fun profile_shape :: "json \<Rightarrow> bool" where
  "profile_shape (JObj kvs) =
     (skills_shape (dict_get kvs (lit ''skills'') (JObj [])) \<and>
      projects_shape (dict_get kvs (lit ''projects'') (JArr [])))"
| "profile_shape _ = False"

text \<open>The projects of a profile, and a field of a project (\<^verbatim>\<open>None\<close> when absent).\<close>

fun projects_of :: "json \<Rightarrow> json list" where
  "projects_of (JObj kvs) = (case dict_get kvs (lit ''projects'') (JArr []) of JArr ps \<Rightarrow> ps | _ \<Rightarrow> [])"
| "projects_of _ = []"

fun field :: "json \<Rightarrow> str \<Rightarrow> json" where
  "field (JObj kvs) k = dict_get kvs k JNull"
| "field _ k = JNull"

text \<open>The bullet of a project in the list of all projects.\<close>

definition bullet_line :: "unicode_data \<Rightarrow> json \<Rightarrow> str" where
  "bullet_line ucd p = lit ''- '' @ py_str ucd (field p (lit ''name'')) @ lit '' ('' @ py_str ucd (field p (lit ''type'')) @ lit '')''"

section \<open>The fields the prompt renders\<close>

text \<open>
  Each content field of the profile with the text the prompt puts before and after its
  value; the same for the fields of the selected project.
\<close>

definition content_fields :: "(str \<times> str \<times> str) list" where
  "content_fields =
     [(lit ''name'', lit ''\<newline>You are an AI Portfolio Assistant representing '', lit ''.\<newline>''),
      (lit ''summary'', lit ''Profile Summary:\<newline>'', lit ''\<newline>''),
      (lit ''education'', lit ''Education: '', lit ''\<newline>''),
      (lit ''current_status'', lit ''Current Status: '', lit ''\<newline>''),
      (lit ''goal'', lit ''Career Goal: '', lit ''\<newline>'')]"

definition project_fields :: "(str \<times> str \<times> str) list" where
  "project_fields =
     [(lit ''name'', lit ''Project Name: '', lit ''\<newline>''),
      (lit ''type'', lit ''Type: '', lit ''\<newline>''),
      (lit ''category'', lit ''Category: '', lit ''\<newline>''),
      (lit ''problem'', lit ''Problem:\<newline>'', lit ''\<newline>''),
      (lit ''solution'', lit ''Solution:\<newline>'', lit ''\<newline>''),
      (lit ''tools'', lit ''Tools Used:\<newline>'', lit ''\<newline>''),
      (lit ''outcome'', lit ''Outcome:\<newline>'', lit ''\<newline>'')]"

text \<open>A text occurs in the result of building a prompt.\<close>

fun prompt_contains :: "str \<Rightarrow> error + str \<Rightarrow> bool" where
  "prompt_contains s (Inr prompt) = sublist s prompt"
| "prompt_contains s (Inl e) = False"

section \<open>Sample inputs\<close>

text \<open>
  The Unicode character data of the ASCII characters and of seven Greek letters: capital
  omicron, delta and sigma (U+039F, U+0394, U+03A3), their small forms (U+03BF, U+03B4,
  U+03C3) and the final sigma (U+03C2). The ASCII characters that are case-ignorable are
  the apostrophe, the full stop, the colon, the circumflex and the grave accent. The
  sample inputs below are written with these characters only; for any other character
  \<open>sample_unicode\<close> is a placeholder.
\<close>

definition greek_capitals :: "(int \<times> int) list" where
  "greek_capitals = [(0x3BF, 0x39F), (0x3B4, 0x394), (0x3C3, 0x3A3), (0x3C2, 0x3A3)]"

definition greek_smalls :: "(int \<times> int) list" where
  "greek_smalls = [(0x39F, 0x3BF), (0x394, 0x3B4), (0x3A3, 0x3C3)]"

definition sample_unicode :: unicode_data where
  "sample_unicode =
     \<lparr>cased = (\<lambda>c. is_upper c \<or> is_lower c \<or> c \<in> set (map fst greek_capitals @ map fst greek_smalls)),
      case_ignorable = (\<lambda>c. c \<in> set [0x27, 0x2E, 0x3A, 0x5E, 0x60]),
      to_title_full = (\<lambda>c. case map_of greek_capitals c of Some t \<Rightarrow> [t] | None \<Rightarrow> [to_upper c]),
      to_lower_full = (\<lambda>c. case map_of greek_smalls c of Some l \<Rightarrow> [l] | None \<Rightarrow> [to_lower c]),
      printable = (\<lambda>c. (0x20 \<le> c \<and> c < 0x7F) \<or>
                        c \<in> set (map fst greek_capitals @ map fst greek_smalls))\<rparr>"

definition odos_capitals :: str where
  "odos_capitals = [0x39F, 0x394, 0x39F, 0x3A3]"

definition odos_smalls :: str where
  "odos_smalls = [0x3BF, 0x3B4, 0x3BF, 0x3C3]"

definition silent :: "request \<Rightarrow> error + str" where
  "silent req = Inr []"

definition tiny_portfolio :: json where
  "tiny_portfolio = JObj [(lit ''name'', JStr (lit ''A''))]"

definition answering :: client where
  "answering req = Inr (lit ''hi'')"

definition failing :: client where
  "failing req = Inl (APIError (lit ''down''))"

definition one_turn_session :: session_state where
  "one_turn_session =
     \<lparr>chat_history = [\<lparr>role = lit ''user'', content = lit ''a'', time = lit ''t0''\<rparr>,
                       \<lparr>role = lit ''assistant'', content = lit ''b'', time = lit ''t0''\<rparr>],
      selected_project = None\<rparr>"

definition sample_skills :: "(str \<times> str list) list" where
  "sample_skills = [(lit ''current_status'', [lit ''x'', lit ''y'']), (lit ''ml_ops'', [])]"

definition project_x :: json where
  "project_x = JObj [(lit ''name'', JStr (lit ''X'')), (lit ''type'', JStr (lit ''web''))]"

definition portfolio_x :: json where
  "portfolio_x = JObj [(lit ''name'', JStr (lit ''A'')), (lit ''projects'', JArr [project_x])]"

definition focused_on_x :: session_state where
  "focused_on_x = \<lparr>chat_history = [], selected_project = Some (lit ''X'')\<rparr>"

definition first_twin :: json where
  "first_twin = JObj [(lit ''name'', JStr (lit ''Twin'')), (lit ''type'', JStr (lit ''first''))]"

definition second_twin :: json where
  "second_twin = JObj [(lit ''name'', JStr (lit ''Twin'')), (lit ''type'', JStr (lit ''second''))]"

definition portfolio_twins :: json where
  "portfolio_twins = JObj [(lit ''name'', JStr (lit ''A'')), (lit ''projects'', JArr [project_x, first_twin, second_twin])]"

definition first_unnamed :: json where
  "first_unnamed = JObj [(lit ''name'', JStr (lit '''')), (lit ''type'', JStr (lit ''first''))]"

definition second_unnamed :: json where
  "second_unnamed = JObj [(lit ''name'', JStr (lit '''')), (lit ''type'', JStr (lit ''second''))]"

definition portfolio_unnamed :: json where
  "portfolio_unnamed = JObj [(lit ''name'', JStr (lit ''A'')), (lit ''projects'', JArr [first_unnamed, second_unnamed])]"

definition untyped_items :: "(str \<times> json) list" where
  "untyped_items = [(lit ''name'', JStr (lit ''U''))]"

definition untyped_portfolio_items :: "(str \<times> json) list" where
  "untyped_portfolio_items = [(lit ''goal'', JStr (lit ''G'')), (lit ''projects'', JArr [JObj untyped_items])]"

definition reports_project_items :: "(str \<times> json) list" where
  "reports_project_items =
     [(lit ''name'', JStr (lit ''Reports'')), (lit ''type'', JStr (lit ''web'')),
      (lit ''problem'', JStr (lit ''slow reports'')), (lit ''solution'', JStr (lit ''caching'')),
      (lit ''tools'', JArr [JStr (lit ''Python'')]), (lit ''outcome'', JStr (lit ''faster''))]"

definition reports_items :: "(str \<times> json) list" where
  "reports_items =
     [(lit ''name'', JStr (lit ''A'')), (lit ''summary'', JStr (lit ''I fixed slow reports'')),
      (lit ''projects'', JArr [JObj reports_project_items])]"

definition reworded_items :: "(str \<times> json) list" where
  "reworded_items =
     [(lit ''name'', JStr (lit ''A'')), (lit ''summary'', JStr (lit ''I fixed slow reports'')),
      (lit ''projects'', JArr [JObj [(lit ''name'', JStr (lit ''Reports'')), (lit ''type'', JStr (lit ''web'')),
                                (lit ''problem'', JStr (lit ''other words''))]])]"

definition no_projects_items :: "(str \<times> json) list" where
  "no_projects_items = [(lit ''name'', JStr (lit ''A'')), (lit ''summary'', JStr (lit ''I fixed slow reports''))]"

definition listing_project_items :: "(str \<times> json) list" where
  "listing_project_items =
     [(lit ''name'', JStr (lit ''X'')), (lit ''type'', JStr (lit ''web'')),
      (lit ''problem'', JStr (lit ''Clients asked for this line: - X (web)'')),
      (lit ''solution'', JStr (lit ''s'')), (lit ''tools'', JArr [JStr (lit ''Python'')]), (lit ''outcome'', JStr (lit ''o''))]"

definition listing_portfolio_items :: "(str \<times> json) list" where
  "listing_portfolio_items = [(lit ''name'', JStr (lit ''A'')), (lit ''projects'', JArr [JObj listing_project_items])]"

section \<open>Properties\<close>

subsection \<open>Literals\<close>

lemma lit_eq_iff [simp]: "lit a = lit b \<longleftrightarrow> a = b"
  by (simp add: lit_def inj_map_eq_map inj_of_char)

lemma lit_append: "lit (a @ b) = lit a @ lit b"
  by (simp add: lit_def)

lemma lit_Nil [simp]: "lit [] = []"
  by (simp add: lit_def)

lemma lit_eq_Nil [simp]: "lit a = [] \<longleftrightarrow> a = []"
  by (simp add: lit_def)

subsection \<open>Errors and the run of the page\<close>

lemma and_then_Inr [simp]: "and_then (Inr x) f = f x"
  by (simp add: and_then_def)

lemma and_then_Inl [simp]: "and_then (Inl e) f = Inl e"
  by (simp add: and_then_def)

lemma and_then_eq_Inr: "and_then m f = Inr y \<longleftrightarrow> (\<exists>x. m = Inr x \<and> f x = Inr y)"
  by (cases m) simp_all

lemma submit_requests:
  "requests (submit ucd client t_user t_reply portfolio state errors q) =
     fst (get_ai_response ucd client
            (state\<lparr>chat_history := chat_history state @ [\<lparr>role = lit ''user'', content = q, time = t_user\<rparr>]\<rparr>)
            q (chat_history state) portfolio)"
  by (simp add: submit_def Let_def split: prod.splits sum.splits)

lemma get_ai_response_sent:
  "get_ai_response ucd client state q history portfolio = (sent, r) \<Longrightarrow>
     (sent = [] \<and> (\<exists>e. r = Inl e)) \<or> (\<exists>req. sent = [req] \<and> r = client req)"
proof (cases "and_then (resolve_selected state portfolio) (create_system_prompt ucd portfolio)")
  case (Inl e)
  assume "get_ai_response ucd client state q history portfolio = (sent, r)"
  then have "sent = [] \<and> r = Inl e"
    unfolding get_ai_response_def Inl by simp
  then show ?thesis by blast
next
  case (Inr prompt)
  assume "get_ai_response ucd client state q history portfolio = (sent, r)"
  then have "\<exists>req. sent = [req] \<and> r = client req"
    unfolding get_ai_response_def Inr Let_def by auto
  then show ?thesis by blast
qed

lemma submit_history:
  "let out = submit ucd client t_user t_reply portfolio state errors q;
       u = \<lparr>role = lit ''user'', content = q, time = t_user\<rparr>
   in (raised out = None \<longrightarrow>
         (\<exists>req reply. requests out = [req] \<and> client req = Inr reply \<and>
            chat_history (session out) =
              chat_history state @ [u, \<lparr>role = lit ''assistant'', content = reply, time = t_reply\<rparr>]))
    \<and> (raised out \<noteq> None \<longrightarrow> chat_history (session out) = chat_history state @ [u])"
  unfolding submit_def Let_def
  by (auto split: prod.splits sum.splits dest: get_ai_response_sent)

lemma main_cases:
  "(\<exists>portfolio state1 errors q. user_input = Some q \<and>
      main ucd doc client t_user t_reply state selected user_input =
        submit ucd client t_user t_reply portfolio state1 errors q \<and>
      chat_history state1 = chat_history state \<and>
      doc = Parsed portfolio \<and>
      state1 = state\<lparr>selected_project :=
                 (if selected = lit ''-- No Project Selected --'' then None else Some selected)\<rparr>)
   \<or> (chat_history (session (main ucd doc client t_user t_reply state selected user_input)) =
        chat_history state \<and>
      requests (main ucd doc client t_user t_reply state selected user_input) = [])"
proof -
  obtain r errors where L: "load_portfolio doc [] = (r, errors)"
    by (cases "load_portfolio doc []")
  show ?thesis
  proof (cases r)
    case (Inl e)
    with L show ?thesis by (simp add: main_def)
  next
    case (Inr portfolio)
    note P = this
    show ?thesis
    proof (cases "truthy portfolio")
      case False
      with L P show ?thesis by (simp add: main_def)
    next
      case True
      note T = this
      show ?thesis
      proof (cases "project_name_options portfolio")
        case (Inl e)
        with L P T show ?thesis by (simp add: main_def)
      next
        case (Inr names)
        note N = this
        show ?thesis
        proof (cases user_input)
          case None
          with L P T N show ?thesis by (simp add: main_def Let_def)
        next
          case (Some q)
          show ?thesis
          proof (cases "q = []")
            case True
            with L P T N Some show ?thesis by (simp add: main_def Let_def)
          next
            case False
            let ?state1 = "state\<lparr>selected_project :=
                (if selected = lit ''-- No Project Selected --'' then None else Some selected)\<rparr>"
            from L P T N Some False
            have "main ucd doc client t_user t_reply state selected user_input =
                    submit ucd client t_user t_reply portfolio ?state1 errors q"
              by (simp add: main_def Let_def)
            moreover have "chat_history ?state1 = chat_history state"
              by simp
            moreover from L P T have "doc = Parsed portfolio"
              by (cases doc) auto
            ultimately show ?thesis
              using Some by blast
          qed
        qed
      qed
    qed
  qed
qed

subsection \<open>What a turn appends to the history\<close>

text \<open>
  Claim C1, as amended. Whatever the session, the document and the input: a run of
  \<^verbatim>\<open>main\<close> that sent a request and ended without an exception has appended exactly two
  entries to the history, the user's message and then the assistant's reply, which
  holds the text the client returned, whatever that text is; a run that ended with an
  exception (raised while the prompt was built or by the client) has appended nothing
  or the user's message alone, never a reply; a run that sent no request and raised
  nothing left the history as it was. (The third theorem below evaluates a run whose
  client returns the empty text.)
\<close>

theorem main_history:
  "let out = main ucd doc client t_user t_reply state selected user_input;
       before = chat_history state;
       after = chat_history (session out)
   in (raised out = None \<and> requests out \<noteq> [] \<longrightarrow>
         (\<exists>q req reply. user_input = Some q \<and> requests out = [req] \<and> client req = Inr reply \<and>
            after = before @ [\<lparr>role = lit ''user'', content = q, time = t_user\<rparr>,
                              \<lparr>role = lit ''assistant'', content = reply, time = t_reply\<rparr>]))
    \<and> (raised out = None \<and> requests out = [] \<longrightarrow> after = before)
    \<and> (raised out \<noteq> None \<longrightarrow>
         after = before \<or>
         (\<exists>q. user_input = Some q \<and>
            after = before @ [\<lparr>role = lit ''user'', content = q, time = t_user\<rparr>]))"
proof -
  let ?out = "main ucd doc client t_user t_reply state selected user_input"
  from main_cases [where ucd = ucd and user_input = user_input and state = state]
  show ?thesis
  proof
    assume "\<exists>portfolio state1 errors q. user_input = Some q \<and>
      ?out = submit ucd client t_user t_reply portfolio state1 errors q \<and>
      chat_history state1 = chat_history state \<and>
      doc = Parsed portfolio \<and>
      state1 = state\<lparr>selected_project :=
                 (if selected = lit ''-- No Project Selected --'' then None else Some selected)\<rparr>"
    then obtain portfolio state1 errors q where
      ui: "user_input = Some q" and
      out: "?out = submit ucd client t_user t_reply portfolio state1 errors q" and
      h: "chat_history state1 = chat_history state"
      by blast
    from submit_history [of ucd client t_user t_reply portfolio state1 errors q]
    have "(raised ?out = None \<longrightarrow>
         (\<exists>req reply. requests ?out = [req] \<and> client req = Inr reply \<and>
            chat_history (session ?out) =
              chat_history state @ [\<lparr>role = lit ''user'', content = q, time = t_user\<rparr>,
                 \<lparr>role = lit ''assistant'', content = reply, time = t_reply\<rparr>]))
      \<and> (raised ?out \<noteq> None \<longrightarrow> chat_history (session ?out) =
            chat_history state @ [\<lparr>role = lit ''user'', content = q, time = t_user\<rparr>])"
      unfolding Let_def out h .
    with ui show ?thesis
      unfolding Let_def by fastforce
  next
    assume "chat_history (session ?out) = chat_history state \<and> requests ?out = []"
    then show ?thesis
      by (simp add: Let_def)
  qed
qed

theorem main_history_witness:
  "chat_history (session (main sample_unicode (Parsed tiny_portfolio) answering (lit ''t1'') (lit ''t2'') fresh_session (lit ''X'') (Some (lit ''q''))))
     = [\<lparr>role = lit ''user'', content = lit ''q'', time = lit ''t1''\<rparr>,
        \<lparr>role = lit ''assistant'', content = lit ''hi'', time = lit ''t2''\<rparr>]
   \<and> chat_history (session (main sample_unicode (Parsed tiny_portfolio) failing (lit ''t1'') (lit ''t2'') fresh_session (lit ''X'') (Some (lit ''q''))))
     = [\<lparr>role = lit ''user'', content = lit ''q'', time = lit ''t1''\<rparr>]
   \<and> chat_history (session (main sample_unicode (Parsed tiny_portfolio) answering (lit ''t1'') (lit ''t2'') fresh_session (lit ''X'') None))
     = []"
proof -
  let ?ok = "main sample_unicode (Parsed tiny_portfolio) answering (lit ''t1'') (lit ''t2'') fresh_session (lit ''X'') (Some (lit ''q''))"
  let ?ko = "main sample_unicode (Parsed tiny_portfolio) failing (lit ''t1'') (lit ''t2'') fresh_session (lit ''X'') (Some (lit ''q''))"
  let ?no = "main sample_unicode (Parsed tiny_portfolio) answering (lit ''t1'') (lit ''t2'') fresh_session (lit ''X'') None"
  have h: "chat_history fresh_session = []"
    by (simp add: fresh_session_def)
  have ok: "raised ?ok = None" "requests ?ok \<noteq> []"
    by code_simp+
  have ko: "raised ?ko \<noteq> None" "chat_history (session ?ko) \<noteq> []"
    by code_simp+
  have no: "raised ?no = None" "requests ?no = []"
    by code_simp+
  have 1: "chat_history (session ?ok) =
      [\<lparr>role = lit ''user'', content = lit ''q'', time = lit ''t1''\<rparr>,
       \<lparr>role = lit ''assistant'', content = lit ''hi'', time = lit ''t2''\<rparr>]"
    using main_history [where user_input = "Some (lit ''q'')" and state = fresh_session
        and client = answering and doc = "Parsed tiny_portfolio" and t_user = "lit ''t1''"
        and t_reply = "lit ''t2''" and selected = "lit ''X''"] ok h
    by (auto simp: Let_def answering_def)
  have 2: "chat_history (session ?ko) = [\<lparr>role = lit ''user'', content = lit ''q'', time = lit ''t1''\<rparr>]"
    using main_history [where user_input = "Some (lit ''q'')" and state = fresh_session
        and client = failing and doc = "Parsed tiny_portfolio" and t_user = "lit ''t1''"
        and t_reply = "lit ''t2''" and selected = "lit ''X''"] ko h
    by (auto simp: Let_def)
  have 3: "chat_history (session ?no) = []"
    using main_history [where user_input = None and state = fresh_session
        and client = answering and doc = "Parsed tiny_portfolio" and t_user = "lit ''t1''"
        and t_reply = "lit ''t2''" and selected = "lit ''X''"] no h
    by (auto simp: Let_def)
  from 1 2 3 show ?thesis by blast
qed

theorem main_history_counterexample:
  "raised (main sample_unicode (Parsed tiny_portfolio) silent (lit ''t1'') (lit ''t2'') fresh_session
             (lit ''X'') (Some (lit ''q''))) = None
   \<and> chat_history (session (main sample_unicode (Parsed tiny_portfolio) silent (lit ''t1'') (lit ''t2'')
                                fresh_session (lit ''X'') (Some (lit ''q'')))) =
       [\<lparr>role = lit ''user'', content = lit ''q'', time = lit ''t1''\<rparr>,
        \<lparr>role = lit ''assistant'', content = [], time = lit ''t2''\<rparr>]"
  by code_simp

subsection \<open>The messages sent to the client\<close>

lemma append_history_map:
  "append_history messages history =
     messages @ map (\<lambda>msg. \<lparr>role = role msg, content = content msg\<rparr>) history"
  by (induction history arbitrary: messages) simp_all

lemma get_ai_response_request:
  assumes "resolve_selected state portfolio = Inr focus"
    and "create_system_prompt ucd portfolio focus = Inr prompt"
  shows "get_ai_response ucd client state q history portfolio =
     ([\<lparr>model = lit ''gpt-4.1-mini'', input = expected_messages prompt history q,
        temperature_tenths = 5, max_output_tokens = 800\<rparr>],
      client \<lparr>model = lit ''gpt-4.1-mini'', input = expected_messages prompt history q,
        temperature_tenths = 5, max_output_tokens = 800\<rparr>)"
  using assms
  by (simp add: get_ai_response_def Let_def append_history_map expected_messages_def)

lemma get_ai_response_requests:
  assumes "req \<in> set (fst (get_ai_response ucd client state q history portfolio))"
  shows "\<exists>focus prompt. resolve_selected state portfolio = Inr focus \<and>
           create_system_prompt ucd portfolio focus = Inr prompt \<and>
           req = \<lparr>model = lit ''gpt-4.1-mini'', input = expected_messages prompt history q,
                   temperature_tenths = 5, max_output_tokens = 800\<rparr>"
proof (cases "and_then (resolve_selected state portfolio) (create_system_prompt ucd portfolio)")
  case (Inl e)
  with assms show ?thesis
    by (simp add: get_ai_response_def)
next
  case (Inr prompt)
  then obtain focus where f: "resolve_selected state portfolio = Inr focus"
    and p: "create_system_prompt ucd portfolio focus = Inr prompt"
    by (auto simp: and_then_eq_Inr)
  from assms show ?thesis
    unfolding get_ai_response_request [OF f p] using f p by simp
qed

text \<open>
  Claim C2. Whenever the selection resolves and the system prompt is built,
  \<^verbatim>\<open>get_ai_response\<close> sends one request whose messages are the system prompt, then the
  history it was given with the times dropped, then the user's message. Every request a
  run of \<^verbatim>\<open>main\<close> sends carries these messages for the history the session had before
  the run, the prompt being the one built for the portfolio and the resolved selection.
\<close>

theorem sent_messages:
  "(resolve_selected state portfolio = Inr focus \<longrightarrow>
    create_system_prompt ucd portfolio focus = Inr prompt \<longrightarrow>
      map input (fst (get_ai_response ucd client state q history portfolio)) =
        [expected_messages prompt history q])
   \<and> (\<forall>req \<in> set (requests (main ucd doc client t_user t_reply state selected user_input)).
        \<exists>portfolio q focus prompt.
          doc = Parsed portfolio \<and> user_input = Some q \<and>
          resolve_selected
            (state\<lparr>selected_project :=
               (if selected = lit ''-- No Project Selected --'' then None else Some selected)\<rparr>)
            portfolio = Inr focus \<and>
          create_system_prompt ucd portfolio focus = Inr prompt \<and>
          input req = expected_messages prompt (chat_history state) q)"
proof (intro conjI impI ballI)
  assume "resolve_selected state portfolio = Inr focus"
    and "create_system_prompt ucd portfolio focus = Inr prompt"
  then show "map input (fst (get_ai_response ucd client state q history portfolio)) =
        [expected_messages prompt history q]"
    by (simp add: get_ai_response_request)
next
  let ?out = "main ucd doc client t_user t_reply state selected user_input"
  let ?state1 = "state\<lparr>selected_project :=
               (if selected = lit ''-- No Project Selected --'' then None else Some selected)\<rparr>"
  fix req
  assume req: "req \<in> set (requests ?out)"
  from main_cases [where ucd = ucd and user_input = user_input and state = state and doc = doc
      and client = client and t_user = t_user and t_reply = t_reply and selected = selected] req
  obtain portfolio errors q where
    ui: "user_input = Some q" and
    out: "?out = submit ucd client t_user t_reply portfolio ?state1 errors q" and
    doc: "doc = Parsed portfolio"
    by auto
  let ?state2 = "?state1\<lparr>chat_history := chat_history ?state1
      @ [\<lparr>role = lit ''user'', content = q, time = t_user\<rparr>]\<rparr>"
  from req have "req \<in> set (fst (get_ai_response ucd client ?state2 q (chat_history state) portfolio))"
    unfolding out submit_requests by simp
  from get_ai_response_requests [OF this]
  obtain focus prompt where
    f: "resolve_selected ?state2 portfolio = Inr focus" and
    p: "create_system_prompt ucd portfolio focus = Inr prompt" and
    r: "req = \<lparr>model = lit ''gpt-4.1-mini'', input = expected_messages prompt (chat_history state) q,
                   temperature_tenths = 5, max_output_tokens = 800\<rparr>"
    by blast
  have "resolve_selected ?state2 portfolio = resolve_selected ?state1 portfolio"
    by (simp add: resolve_selected_def)
  with f have f1: "resolve_selected ?state1 portfolio = Inr focus"
    by simp
  from r have "input req = expected_messages prompt (chat_history state) q"
    by simp
  with ui doc f1 p
  show "\<exists>portfolio q focus prompt.
          doc = Parsed portfolio \<and> user_input = Some q \<and>
          resolve_selected ?state1 portfolio = Inr focus \<and>
          create_system_prompt ucd portfolio focus = Inr prompt \<and>
          input req = expected_messages prompt (chat_history state) q"
    by blast
qed


theorem sent_messages_witness:
  "\<exists>prompt. create_system_prompt sample_unicode tiny_portfolio JNull = Inr prompt \<and>
     map input (requests (main sample_unicode (Parsed tiny_portfolio) answering (lit ''t1'') (lit ''t2'') one_turn_session
                            (lit ''X'') (Some (lit ''q'')))) =
       [[\<lparr>role = lit ''system'', content = prompt\<rparr>,
         \<lparr>role = lit ''user'', content = lit ''a''\<rparr>,
         \<lparr>role = lit ''assistant'', content = lit ''b''\<rparr>,
         \<lparr>role = lit ''user'', content = lit ''q''\<rparr>]] \<and>
     map input (fst (get_ai_response sample_unicode answering one_turn_session (lit ''q'')
                       (chat_history one_turn_session) tiny_portfolio)) =
       [[\<lparr>role = lit ''system'', content = prompt\<rparr>,
         \<lparr>role = lit ''user'', content = lit ''a''\<rparr>,
         \<lparr>role = lit ''assistant'', content = lit ''b''\<rparr>,
         \<lparr>role = lit ''user'', content = lit ''q''\<rparr>]]"
proof -
  let ?out = "main sample_unicode (Parsed tiny_portfolio) answering (lit ''t1'') (lit ''t2'') one_turn_session (lit ''X'') (Some (lit ''q''))"
  let ?state1 = "one_turn_session\<lparr>selected_project :=
      (if (lit ''X'') = lit ''-- No Project Selected --'' then None else Some (lit ''X''))\<rparr>"
  have "length (requests ?out) = 1"
    by code_simp
  then obtain req where out: "requests ?out = [req]"
    by (cases "requests ?out") auto
  then have "req \<in> set (requests ?out)"
    by simp
  with sent_messages [where doc = "Parsed tiny_portfolio" and client = answering
      and t_user = "lit ''t1''" and t_reply = "lit ''t2''" and state = one_turn_session
      and selected = "lit ''X''" and user_input = "Some (lit ''q'')"]
  obtain focus prompt where
    f: "resolve_selected ?state1 tiny_portfolio = Inr focus" and
    p: "create_system_prompt sample_unicode tiny_portfolio focus = Inr prompt" and
    i: "input req = expected_messages prompt (chat_history one_turn_session) (lit ''q'')"
    by fastforce
  have "resolve_selected ?state1 tiny_portfolio = Inr JNull"
    by code_simp
  with f have focus: "focus = JNull"
    by simp
  have "resolve_selected one_turn_session tiny_portfolio = Inr JNull"
    by code_simp
  with p focus
  have "map input (fst (get_ai_response sample_unicode answering one_turn_session (lit ''q'')
                       (chat_history one_turn_session) tiny_portfolio)) =
        [expected_messages prompt (chat_history one_turn_session) (lit ''q'')]"
    using sent_messages [where state = one_turn_session and portfolio = tiny_portfolio
        and focus = JNull and prompt = prompt and client = answering and q = "lit ''q''"
        and history = "chat_history one_turn_session"]
    by blast
  with p i out focus show ?thesis
    by (simp add: expected_messages_def one_turn_session_def)
qed
subsection \<open>The skills block\<close>

lemma str_items_map_JStr: "str_items (map JStr ss) = Inr ss"
  by (induction ss) simp_all

lemma py_join_strings: "py_join sep (JArr (map JStr ss)) = Inr (join sep ss)"
  by (simp add: py_join_def str_items_map_JStr)

lemma format_skills_loop_lines:
  "format_skills_loop ucd (map (\<lambda>entry. (fst entry, JArr (map JStr (snd entry)))) entries) lines =
     Inr (lines @ map (skills_line ucd) entries)"
  by (induction entries arbitrary: lines) (simp_all add: py_join_strings skills_line_def)

lemma split_on_no_sep: "sep \<notin> set x \<Longrightarrow> split_on sep x = [x]"
  by (induction x) auto

lemma split_on_append: "sep \<notin> set x \<Longrightarrow> split_on sep (x @ sep # rest) = x # split_on sep rest"
  by (induction x) auto

lemma split_on_join:
  "ls \<noteq> [] \<Longrightarrow> \<forall>l \<in> set ls. sep \<notin> set l \<Longrightarrow> split_on sep (join [sep] ls) = ls"
  by (induction "[sep]" ls rule: join.induct) (simp_all add: split_on_no_sep split_on_append)

lemma lit_newline: "lit ''\<newline>'' = [10]"
  by (simp add: lit_def)

lemma ascii_dataD:
  assumes "ascii_data ucd" and "0 \<le> c" and "c < 128"
  shows "cased ucd c = (is_upper c \<or> is_lower c)"
    and "to_title_full ucd c = [to_upper c]"
    and "to_lower_full ucd c = [to_lower c]"
  using assms by (simp_all add: ascii_data_def list_all_iff)

lemma do_title_ascii:
  assumes "ascii_data ucd"
  shows "ascii s \<Longrightarrow> do_title ucd b before_rev s = ascii_title b s"
proof (induction s arbitrary: b before_rev)
  case Nil
  then show ?case by simp
next
  case (Cons c cs)
  then have c0: "0 \<le> c" and c: "c < 128" and cs: "ascii cs"
    by (simp_all add: ascii_def)
  from c have "c \<noteq> 0x3A3"
    by simp
  then have "lower_ucs4 ucd before_rev cs c = to_lower_full ucd c"
    by (simp add: lower_ucs4_def)
  with ascii_dataD [OF assms c0 c] Cons.IH [OF cs] show ?case
    by simp
qed

lemma ascii_replace: "ascii s \<Longrightarrow> ascii (replace 95 32 s)"
  by (induction s) (simp_all add: ascii_def replace_def)

lemma humanize_ascii:
  "ascii_data ucd \<Longrightarrow> ascii k \<Longrightarrow> humanize ucd k = ascii_title False (replace 95 32 k)"
  by (simp add: humanize_def title_def do_title_ascii ascii_replace)

lemma same_lower_char:
  assumes "to_lower c = to_lower d"
  shows "to_upper c = to_upper d" and "(is_upper c \<or> is_lower c) = (is_upper d \<or> is_lower d)"
  using assms by (auto simp: to_lower_def to_upper_def is_upper_def is_lower_def split: if_splits)

lemma ascii_title_same_lower:
  "map to_lower s = map to_lower s' \<Longrightarrow> ascii_title b s = ascii_title b s'"
proof (induction s arbitrary: s' b)
  case Nil
  then show ?case by simp
next
  case (Cons c cs)
  then obtain d ds where s': "s' = d # ds" and cd: "to_lower c = to_lower d"
    and rest: "map to_lower cs = map to_lower ds"
    by (cases s') auto
  from same_lower_char [OF cd] Cons.IH [OF rest] cd show ?case
    by (simp add: s')
qed

lemma to_lower_underscore: "to_lower c = 95 \<longleftrightarrow> c = 95"
  by (auto simp: to_lower_def is_upper_def)

lemma replace_same_lower:
  "map to_lower s = map to_lower s' \<Longrightarrow>
     map to_lower (replace 95 32 s) = map to_lower (replace 95 32 s')"
proof (induction s arbitrary: s')
  case Nil
  then show ?case by simp
next
  case (Cons c cs)
  then obtain d ds where s': "s' = d # ds" and cd: "to_lower c = to_lower d"
    and rest: "map to_lower cs = map to_lower ds"
    by (cases s') auto
  from cd have "c = 95 \<longleftrightarrow> d = 95"
    by (metis to_lower_underscore)
  with Cons.IH [OF rest] cd show ?case
    by (simp add: s' replace_def)
qed

lemma humanize_same_lower:
  assumes "ascii_data ucd" and "ascii k" and "ascii k'" and "map to_lower k = map to_lower k'"
  shows "humanize ucd k = humanize ucd k'"
proof -
  from assms(4) have "map to_lower (replace 95 32 k) = map to_lower (replace 95 32 k')"
    by (rule replace_same_lower)
  then have "ascii_title False (replace 95 32 k) = ascii_title False (replace 95 32 k')"
    by (rule ascii_title_same_lower)
  with assms(1-3) show ?thesis
    by (simp add: humanize_ascii)
qed

text \<open>
  Claim C6, as amended. For every skills mapping, \<^verbatim>\<open>format_skills\<close> returns the lines of
  the categories joined by newlines, one line per category in the mapping's order, each
  the humanized key (underscores replaced by spaces, then \<^verbatim>\<open>str.title\<close>), a colon and the
  comma-joined skills; when no line holds a newline, splitting the block at the newlines
  gives back exactly these lines. With the Unicode data of the ASCII characters, the
  keys \<^verbatim>\<open>current_status\<close> and \<^verbatim>\<open>Current_Status\<close> both give the header
  \<^verbatim>\<open>Current Status\<close>, and two ASCII keys that differ only in the case of their letters
  give the same header. (The third theorem below evaluates two keys of Greek letters
  that differ only in case.)
\<close>

theorem format_skills_lines:
  "format_skills ucd (skills_json entries) = Inr (join (lit ''\<newline>'') (map (skills_line ucd) entries))
   \<and> (entries \<noteq> [] \<longrightarrow>
        (\<forall>entry \<in> set entries. 10 \<notin> set (skills_line ucd entry)) \<longrightarrow>
        (\<exists>block. format_skills ucd (skills_json entries) = Inr block \<and>
           split_on 10 block = map (skills_line ucd) entries))
   \<and> (ascii_data ucd \<longrightarrow>
        humanize ucd (lit ''current_status'') = lit ''Current Status'' \<and>
        humanize ucd (lit ''Current_Status'') = lit ''Current Status'')
   \<and> (ascii_data ucd \<longrightarrow> ascii k \<longrightarrow> ascii k' \<longrightarrow> map to_lower k = map to_lower k' \<longrightarrow>
        humanize ucd k = humanize ucd k')"
proof (intro conjI impI)
  show block: "format_skills ucd (skills_json entries) =
      Inr (join (lit ''\<newline>'') (map (skills_line ucd) entries))"
    by (simp add: skills_json_def format_skills_loop_lines)
  show "\<exists>block. format_skills ucd (skills_json entries) = Inr block \<and>
           split_on 10 block = map (skills_line ucd) entries"
    if ne: "entries \<noteq> []"
    and clean: "\<forall>entry \<in> set entries. 10 \<notin> set (skills_line ucd entry)"
  proof -
    from ne have "map (skills_line ucd) entries \<noteq> []"
      by simp
    moreover from clean have "\<forall>l \<in> set (map (skills_line ucd) entries). 10 \<notin> set l"
      by simp
    ultimately have "split_on 10 (join [10] (map (skills_line ucd) entries)) =
        map (skills_line ucd) entries"
      by (rule split_on_join)
    with block show ?thesis
      by (simp add: lit_newline)
  qed
next
  assume data: "ascii_data ucd"
  have a1: "ascii (lit ''current_status'')"
    by code_simp
  have e1: "ascii_title False (replace 95 32 (lit ''current_status'')) = lit ''Current Status''"
    by code_simp
  show "humanize ucd (lit ''current_status'') = lit ''Current Status''"
    by (rule trans [OF humanize_ascii [OF data a1] e1])
  have a2: "ascii (lit ''Current_Status'')"
    by code_simp
  have e2: "ascii_title False (replace 95 32 (lit ''Current_Status'')) = lit ''Current Status''"
    by code_simp
  show "humanize ucd (lit ''Current_Status'') = lit ''Current Status''"
    by (rule trans [OF humanize_ascii [OF data a2] e2])
next
  assume "ascii_data ucd" and "ascii k" and "ascii k'" and "map to_lower k = map to_lower k'"
  then show "humanize ucd k = humanize ucd k'"
    by (rule humanize_same_lower)
qed

theorem format_skills_lines_witness:
  "(\<exists>block. format_skills sample_unicode (skills_json sample_skills) = Inr block \<and>
      split_on 10 block = [lit ''Current Status: x, y'', lit ''Ml Ops: ''])
   \<and> humanize sample_unicode (lit ''Current_Status'') = lit ''Current Status''
   \<and> humanize sample_unicode (lit ''cURRENT_sTATUS'') = humanize sample_unicode (lit ''current_status'')"
proof -
  have ne: "sample_skills \<noteq> []"
    by (simp add: sample_skills_def)
  have rendered: "map (skills_line sample_unicode) sample_skills =
      [lit ''Current Status: x, y'', lit ''Ml Ops: '']"
    by code_simp
  have clean: "\<forall>entry \<in> set sample_skills. 10 \<notin> set (skills_line sample_unicode entry)"
    by code_simp
  have data: "ascii_data sample_unicode"
    by code_simp
  have a1: "ascii (lit ''cURRENT_sTATUS'')" and a2: "ascii (lit ''current_status'')"
    by code_simp+
  have same: "map to_lower (lit ''cURRENT_sTATUS'') = map to_lower (lit ''current_status'')"
    by code_simp
  from format_skills_lines [of sample_unicode sample_skills "lit ''cURRENT_sTATUS''" "lit ''current_status''"]
  have lines: "sample_skills \<noteq> [] \<longrightarrow>
        (\<forall>entry \<in> set sample_skills. 10 \<notin> set (skills_line sample_unicode entry)) \<longrightarrow>
        (\<exists>block. format_skills sample_unicode (skills_json sample_skills) = Inr block \<and>
           split_on 10 block = map (skills_line sample_unicode) sample_skills)"
    and named: "ascii_data sample_unicode \<longrightarrow>
        humanize sample_unicode (lit ''current_status'') = lit ''Current Status'' \<and>
        humanize sample_unicode (lit ''Current_Status'') = lit ''Current Status''"
    and casing: "ascii_data sample_unicode \<longrightarrow> ascii (lit ''cURRENT_sTATUS'') \<longrightarrow>
        ascii (lit ''current_status'') \<longrightarrow>
        map to_lower (lit ''cURRENT_sTATUS'') = map to_lower (lit ''current_status'') \<longrightarrow>
        humanize sample_unicode (lit ''cURRENT_sTATUS'') = humanize sample_unicode (lit ''current_status'')"
    by blast+
  from lines ne clean obtain block where
    "format_skills sample_unicode (skills_json sample_skills) = Inr block" and
    "split_on 10 block = map (skills_line sample_unicode) sample_skills"
    by blast
  then have 1: "\<exists>block. format_skills sample_unicode (skills_json sample_skills) = Inr block \<and>
      split_on 10 block = [lit ''Current Status: x, y'', lit ''Ml Ops: '']"
    unfolding rendered by blast
  from named data have 2: "humanize sample_unicode (lit ''Current_Status'') = lit ''Current Status''"
    by blast
  from casing data a1 a2 same
  have 3: "humanize sample_unicode (lit ''cURRENT_sTATUS'') = humanize sample_unicode (lit ''current_status'')"
    by blast
  from 1 2 3 show ?thesis
    by (intro conjI)
qed

theorem format_skills_lines_counterexample:
  "map (to_lower_full sample_unicode) odos_capitals = map (to_lower_full sample_unicode) odos_smalls
   \<and> humanize sample_unicode odos_capitals = [0x39F, 0x3B4, 0x3BF, 0x3C2]
   \<and> humanize sample_unicode odos_smalls = [0x39F, 0x3B4, 0x3BF, 0x3C3]
   \<and> format_skills sample_unicode (skills_json [(odos_capitals, [lit ''x''])]) \<noteq>
      format_skills sample_unicode (skills_json [(odos_smalls, [lit ''x''])])"
  by code_simp

subsection \<open>Profiles of the expected shape\<close>

lemma str_items_shape: "list_all is_str xs \<Longrightarrow> \<exists>ss. str_items xs = Inr ss"
proof (induction xs)
  case Nil
  then show ?case by simp
next
  case (Cons x xs)
  then obtain ss where "str_items xs = Inr ss"
    by auto
  with Cons.prems show ?case
    by (cases x) simp_all
qed

lemma py_join_shape: "is_str_list v \<Longrightarrow> \<exists>s. py_join sep v = Inr s"
proof (cases v)
  case (JArr xs)
  assume "is_str_list v"
  with JArr obtain ss where "str_items xs = Inr ss"
    using str_items_shape by auto
  with JArr show ?thesis
    by (simp add: py_join_def)
qed simp_all

lemma format_skills_loop_shape:
  "list_all (\<lambda>item. is_str_list (snd item)) items \<Longrightarrow> \<exists>ls. format_skills_loop ucd items lines = Inr ls"
proof (induction items arbitrary: lines)
  case Nil
  then show ?case by simp
next
  case (Cons item items)
  obtain category skills where item: "item = (category, skills)"
    by (cases item)
  with Cons.prems obtain joined where "py_join (lit '', '') skills = Inr joined"
    using py_join_shape by fastforce
  with Cons item show ?case
    by simp
qed

lemma format_skills_shape: "skills_shape v \<Longrightarrow> \<exists>s. format_skills ucd v = Inr s"
proof (cases v)
  case (JObj items)
  assume "skills_shape v"
  with JObj obtain ls where "format_skills_loop ucd items [] = Inr ls"
    using format_skills_loop_shape [of items ucd "[]"] by auto
  with JObj show ?thesis
    by simp
qed simp_all

lemma base_prompt_shape:
  "skills_shape (dict_get kvs (lit ''skills'') (JObj [])) \<Longrightarrow> \<exists>base. base_prompt ucd (JObj kvs) = Inr base"
proof -
  assume "skills_shape (dict_get kvs (lit ''skills'') (JObj []))"
  then obtain s where "format_skills ucd (dict_get kvs (lit ''skills'') (JObj [])) = Inr s"
    using format_skills_shape by blast
  then show ?thesis
    by (simp add: base_prompt_def)
qed

lemma py_get_dict: "is_dict p \<Longrightarrow> py_get p k JNull = Inr (field p k)"
  by (cases p) simp_all

lemma project_bullets_shape:
  "list_all is_dict ps \<Longrightarrow> project_bullets ucd ps = Inr (map (bullet_line ucd) ps)"
  by (induction ps) (simp_all add: py_get_dict bullet_line_def)

lemma project_list_shape:
  "projects_shape (dict_get kvs (lit ''projects'') (JArr [])) \<Longrightarrow>
     project_list ucd (JObj kvs) = Inr (join (lit ''\<newline>'') (map (bullet_line ucd) (projects_of (JObj kvs))))"
  by (cases "dict_get kvs (lit ''projects'') (JArr [])") (simp_all add: project_list_def project_bullets_shape)

lemma broad_prompt_shape:
  assumes "profile_shape portfolio"
  shows "\<exists>base. base_prompt ucd portfolio = Inr base \<and>
           create_system_prompt ucd portfolio JNull =
             Inr (base @ lit ''\<newline>Projects:\<newline>''
                 @ join (lit ''\<newline>'') (map (bullet_line ucd) (projects_of portfolio)) @ lit ''\<newline>''
                 @ lit ''\<newline>''
                 @ lit ''Instructions:\<newline>''
                 @ lit ''- Answer about skills, projects, resume, career goals\<newline>''
                 @ lit ''- Suggest selecting a project for deep explanation\<newline>'')"
proof (cases portfolio)
  case (JObj kvs)
  with assms obtain base where "base_prompt ucd (JObj kvs) = Inr base"
    using base_prompt_shape by auto
  moreover from assms JObj
  have "project_list ucd (JObj kvs) = Inr (join (lit ''\<newline>'') (map (bullet_line ucd) (projects_of (JObj kvs))))"
    using project_list_shape by simp
  ultimately show ?thesis
    unfolding JObj create_system_prompt_def by simp
qed (use assms in simp_all)

lemma find_selected_miss:
  "list_all is_dict ps \<Longrightarrow> \<forall>p \<in> set ps. field p (lit ''name'') \<noteq> JStr n \<Longrightarrow> find_selected ps n = Inr JNull"
  by (induction ps) (simp_all add: py_get_dict)

lemma find_selected_first:
  "list_all is_dict before \<Longrightarrow> \<forall>p \<in> set before. field p (lit ''name'') \<noteq> JStr n \<Longrightarrow>
   is_dict p \<Longrightarrow> field p (lit ''name'') = JStr n \<Longrightarrow>
     find_selected (before @ p # rest) n = Inr p"
  by (induction before) (simp_all add: py_get_dict)

lemma resolve_selected_projects:
  assumes "profile_shape portfolio"
  shows "resolve_selected state portfolio =
     (case selected_project state of
        None \<Rightarrow> Inr JNull
      | Some n \<Rightarrow> if n = [] then Inr JNull else find_selected (projects_of portfolio) n)"
proof (cases portfolio)
  case (JObj kvs)
  with assms show ?thesis
    by (cases "dict_get kvs (lit ''projects'') (JArr [])")
       (simp_all add: resolve_selected_def split: option.splits)
qed (use assms in simp_all)

subsection \<open>Resolving the selection\<close>

text \<open>
  Claim C7. For every profile and every selected name that is the name of none of its
  projects (names are compared as texts, character by character), the selection
  resolves to \<^verbatim>\<open>None\<close> without an exception, whatever the session held before, and
  \<^verbatim>\<open>get_ai_response\<close> sends the prompt built with no selected project.
\<close>

theorem unknown_selection:
  assumes "profile_shape portfolio"
    and "\<forall>p \<in> set (projects_of portfolio). field p (lit ''name'') \<noteq> JStr n"
  shows "resolve_selected (state\<lparr>selected_project := Some n\<rparr>) portfolio = Inr JNull
     \<and> resolve_selected
         (state\<lparr>selected_project := (if n = lit ''-- No Project Selected --'' then None else Some n)\<rparr>)
         portfolio = Inr JNull
     \<and> (\<exists>prompt. create_system_prompt ucd portfolio JNull = Inr prompt \<and>
          map input (fst (get_ai_response ucd client (state\<lparr>selected_project := Some n\<rparr>) q history
                            portfolio)) =
            [expected_messages prompt history q])"
proof -
  from assms(1) have shape: "list_all is_dict (projects_of portfolio)"
    by (cases portfolio; cases "field portfolio (lit ''projects'')") (auto split: json.splits)
  from find_selected_miss [OF shape assms(2)]
  have miss: "find_selected (projects_of portfolio) n = Inr JNull" .
  have 1: "resolve_selected (state\<lparr>selected_project := Some n\<rparr>) portfolio = Inr JNull"
    using miss by (simp add: resolve_selected_projects [OF assms(1)])
  have 2: "resolve_selected
         (state\<lparr>selected_project := (if n = lit ''-- No Project Selected --'' then None else Some n)\<rparr>)
         portfolio = Inr JNull"
    using miss by (simp add: resolve_selected_projects [OF assms(1)])
  from broad_prompt_shape [OF assms(1)] obtain prompt
    where p: "create_system_prompt ucd portfolio JNull = Inr prompt"
    by blast
  from get_ai_response_request [OF 1 p]
  have "map input (fst (get_ai_response ucd client (state\<lparr>selected_project := Some n\<rparr>) q history
                            portfolio)) = [expected_messages prompt history q]"
    by simp
  with 1 2 p show ?thesis
    by simp
qed

theorem unknown_selection_witness:
  "resolve_selected (focused_on_x\<lparr>selected_project := Some (lit ''x'')\<rparr>) portfolio_x = Inr JNull
   \<and> resolve_selected focused_on_x portfolio_x = Inr project_x"
proof -
  have shape: "profile_shape portfolio_x"
    by code_simp
  have miss: "\<forall>p \<in> set (projects_of portfolio_x). field p (lit ''name'') \<noteq> JStr (lit ''x'')"
    by code_simp
  have before: "resolve_selected focused_on_x portfolio_x = Inr project_x"
    by code_simp
  from unknown_selection [OF shape miss, of focused_on_x] before show ?thesis
    by blast
qed

text \<open>
  Claim C9, as amended. For every profile and every selected name that is not the empty
  text, the selection resolves to the first project of the sequence that has this name,
  whatever follows it. (The third theorem below evaluates the resolution on two projects
  named by the empty text, with that name selected.)
\<close>

theorem first_match:
  assumes "profile_shape portfolio"
    and "projects_of portfolio = before @ p # rest"
    and "\<forall>q \<in> set before. field q (lit ''name'') \<noteq> JStr n"
    and "field p (lit ''name'') = JStr n"
    and "n \<noteq> []"
  shows "resolve_selected (state\<lparr>selected_project := Some n\<rparr>) portfolio = Inr p"
proof -
  from assms(1) have "list_all is_dict (projects_of portfolio)"
    by (cases portfolio; cases "field portfolio (lit ''projects'')") (auto split: json.splits)
  with assms(2) have "list_all is_dict before" and "is_dict p"
    by simp_all
  from find_selected_first [OF this(1) assms(3) this(2) assms(4)] assms(2,5)
  show ?thesis
    by (simp add: resolve_selected_projects [OF assms(1)])
qed

theorem first_match_witness:
  "resolve_selected (fresh_session\<lparr>selected_project := Some (lit ''Twin'')\<rparr>) portfolio_twins = Inr first_twin"
proof -
  have shape: "profile_shape portfolio_twins"
    by code_simp
  have ps: "projects_of portfolio_twins = [project_x] @ first_twin # [second_twin]"
    by code_simp
  have miss: "\<forall>q \<in> set [project_x]. field q (lit ''name'') \<noteq> JStr (lit ''Twin'')"
    by code_simp
  have hit: "field first_twin (lit ''name'') = JStr (lit ''Twin'')"
    by code_simp
  have ne: "lit ''Twin'' \<noteq> []"
    by simp
  from first_match [OF shape ps miss hit ne] show ?thesis .
qed

theorem empty_name_counterexample:
  "projects_of portfolio_unnamed = [first_unnamed, second_unnamed]
   \<and> field first_unnamed (lit ''name'') = JStr (lit '''')
   \<and> field second_unnamed (lit ''name'') = JStr (lit '''')
   \<and> resolve_selected (fresh_session\<lparr>selected_project := Some (lit '''')\<rparr>) portfolio_unnamed = Inr JNull
   \<and> resolve_selected (fresh_session\<lparr>selected_project := Some (lit '''')\<rparr>) portfolio_unnamed \<noteq> Inr first_unnamed"
  by code_simp

subsection \<open>A profile without projects\<close>

text \<open>
  Claim C10. For every profile with no \<^verbatim>\<open>projects\<close> entry or an empty one, the list of
  project names is empty, every selection resolves to \<^verbatim>\<open>None\<close>, and the prompt built
  with no selected project is the base prompt followed by a \<^verbatim>\<open>Projects:\<close> section
  with an empty list; none of the three raises.
\<close>

theorem no_projects:
  assumes "map_of kvs (lit ''projects'') = None \<or> map_of kvs (lit ''projects'') = Some (JArr [])"
    and "skills_shape (dict_get kvs (lit ''skills'') (JObj []))"
  shows "project_name_options (JObj kvs) = Inr []
     \<and> resolve_selected state (JObj kvs) = Inr JNull
     \<and> (\<exists>base. base_prompt ucd (JObj kvs) = Inr base \<and>
          create_system_prompt ucd (JObj kvs) JNull =
            Inr (base @ lit ''\<newline>Projects:\<newline>''
                 @ lit '''' @ lit ''\<newline>''
                 @ lit ''\<newline>''
                 @ lit ''Instructions:\<newline>''
                 @ lit ''- Answer about skills, projects, resume, career goals\<newline>''
                 @ lit ''- Suggest selecting a project for deep explanation\<newline>''))"
proof -
  from assms(1) have ps: "dict_get kvs (lit ''projects'') (JArr []) = JArr []"
    by (auto simp: dict_get_def)
  then have names: "project_name_options (JObj kvs) = Inr []"
    by (simp add: project_name_options_def)
  from ps have res: "resolve_selected state (JObj kvs) = Inr JNull"
    by (simp add: resolve_selected_def split: option.splits)
  from ps assms(2) have shape: "profile_shape (JObj kvs)"
    by simp
  from ps have "projects_of (JObj kvs) = []"
    by simp
  with broad_prompt_shape [OF shape] names res show ?thesis
    by simp
qed

theorem no_projects_witness:
  "project_name_options tiny_portfolio = Inr []
   \<and> resolve_selected focused_on_x tiny_portfolio = Inr JNull
   \<and> (\<exists>base. create_system_prompt sample_unicode tiny_portfolio JNull =
         Inr (base @ lit ''\<newline>Projects:\<newline>''
                 @ lit '''' @ lit ''\<newline>''
                 @ lit ''\<newline>''
                 @ lit ''Instructions:\<newline>''
                 @ lit ''- Answer about skills, projects, resume, career goals\<newline>''
                 @ lit ''- Suggest selecting a project for deep explanation\<newline>''))"
proof -
  have a: "map_of [(lit ''name'', JStr (lit ''A''))] (lit ''projects'') = None \<or>
           map_of [(lit ''name'', JStr (lit ''A''))] (lit ''projects'') = Some (JArr [])"
    by simp
  have b: "skills_shape (dict_get [(lit ''name'', JStr (lit ''A''))] (lit ''skills'') (JObj []))"
    by code_simp
  from no_projects [OF a b, where state = focused_on_x and ucd = sample_unicode] show ?thesis
    unfolding tiny_portfolio_def by auto
qed

subsection \<open>Loading\<close>

text \<open>
  Claim C5, as amended. When the document is absent, \<^verbatim>\<open>load_portfolio\<close> shows the message
  \<^verbatim>\<open>portfolio_knowledge.json not found\<close> and returns an empty mapping, and \<^verbatim>\<open>main\<close>
  returns at once: the session is unchanged, nothing is sent and nothing is raised. When
  \<^verbatim>\<open>json.load\<close> rejects the document, its exception ends \<^verbatim>\<open>load_portfolio\<close> and \<^verbatim>\<open>main ucd\<close>
  with the session unchanged. A document that parses is returned as it is, whatever its
  shape. The second theorem shows the two places where the claim as written fails: the
  absent document gives the empty mapping instead of an error, and a parsed value that
  is not a profile is returned.
\<close>

theorem absent_document:
  "load_portfolio Absent errors = (Inr (JObj []), errors @ [lit ''portfolio_knowledge.json not found''])
   \<and> main ucd Absent client t_user t_reply state selected user_input =
       \<lparr>session = state, shown = [lit ''portfolio_knowledge.json not found''], requests = [],
        raised = None\<rparr>
   \<and> load_portfolio Unparseable errors = (Inl JSONDecodeError, errors)
   \<and> main ucd Unparseable client t_user t_reply state selected user_input =
       \<lparr>session = state, shown = [], requests = [], raised = Some JSONDecodeError\<rparr>
   \<and> load_portfolio (Parsed v) errors = (Inr v, errors)"
  by (simp add: main_def)

theorem absent_document_counterexample:
  "fst (load_portfolio Absent []) = Inr (JObj [])
   \<and> fst (load_portfolio (Parsed (JArr [JInt 1])) []) = Inr (JArr [JInt 1])"
  by simp

subsection \<open>What the prompt contains\<close>

lemma base_prompt_same:
  assumes "\<forall>k. k \<noteq> lit ''projects'' \<longrightarrow> map_of kvs k = map_of kvs' k"
  shows "base_prompt ucd (JObj kvs) = base_prompt ucd (JObj kvs')"
proof -
  have "dict_get kvs k d = dict_get kvs' k d" if "k \<noteq> lit ''projects''" for k d
    using assms that by (simp add: dict_get_def)
  then show ?thesis
    by (simp add: base_prompt_def)
qed

lemma join_member:
  "x \<in> set xs \<Longrightarrow> sublist (sep @ x @ sep) (sep @ join sep xs @ sep)"
proof (induction sep xs rule: join.induct)
  case (1 sep)
  then show ?case by simp
next
  case (2 sep y)
  then show ?case by simp
next
  case (3 sep y z zs)
  show ?case
  proof (cases "x = y")
    case True
    have "sep @ join sep (y # z # zs) @ sep = [] @ (sep @ x @ sep) @ (join sep (z # zs) @ sep)"
      by (simp add: True)
    then show ?thesis
      unfolding sublist_def by blast
  next
    case False
    with 3 have "sublist (sep @ x @ sep) (sep @ join sep (z # zs) @ sep)"
      by simp
    then obtain ps ss where "sep @ join sep (z # zs) @ sep = ps @ (sep @ x @ sep) @ ss"
      unfolding sublist_def by blast
    then have "sep @ join sep (y # z # zs) @ sep = (sep @ y @ ps) @ (sep @ x @ sep) @ ss"
      by simp
    then show ?thesis
      unfolding sublist_def by blast
  qed
qed

lemma sublist_skip: "sublist x ys \<Longrightarrow> sublist x (zs @ ys)"
  unfolding sublist_def by (metis append_assoc)

lemma sublist_here: "sublist x (x @ ys)"
  by simp

lemma selected_block_contains:
  "\<exists>block. selected_block ucd (JObj f) = Inr block
     \<and> sublist (py_str ucd (dict_get f (lit ''problem'') JNull)) block
     \<and> sublist (py_str ucd (dict_get f (lit ''solution'') JNull)) block
     \<and> sublist (py_str ucd (dict_get f (lit ''tools'') JNull)) block
     \<and> sublist (py_str ucd (dict_get f (lit ''outcome'') JNull)) block"
  unfolding selected_block_def
  apply (simp only: py_get.simps and_then_Inr)
  apply (rule exI, rule conjI, rule refl)
  apply (intro conjI)
     apply (rule sublist_here | rule sublist_skip)+
  done

lemma bullet_line_name: "sublist (py_str ucd (field p (lit ''name''))) (bullet_line ucd p)"
  unfolding bullet_line_def by (rule sublist_here | rule sublist_skip)+

lemma sublist_trans: "sublist x y \<Longrightarrow> sublist y z \<Longrightarrow> sublist x z"
  unfolding sublist_def by (metis append_assoc)

lemma bullet_lines_same:
  assumes "map (\<lambda>p. (field p (lit ''name''), field p (lit ''type''))) ps =
           map (\<lambda>p. (field p (lit ''name''), field p (lit ''type''))) ps'"
  shows "map (bullet_line ucd) ps = map (bullet_line ucd) ps'"
  using assms
proof (induction ps arbitrary: ps')
  case Nil
  then show ?case by simp
next
  case (Cons p ps)
  then obtain q qs where ps': "ps' = q # qs"
    and head: "field p (lit ''name'') = field q (lit ''name'')" "field p (lit ''type'') = field q (lit ''type'')"
    and rest: "map (\<lambda>p. (field p (lit ''name''), field p (lit ''type''))) ps =
               map (\<lambda>p. (field p (lit ''name''), field p (lit ''type''))) qs"
    by (cases ps') auto
  from head have "bullet_line ucd p = bullet_line ucd q"
    by (simp add: bullet_line_def)
  with Cons.IH [OF rest] show ?case
    by (simp add: ps')
qed

lemma sublist_inside: "sublist x y \<Longrightarrow> sublist x (a @ y @ b)"
  unfolding sublist_def by (metis append_assoc)

lemma lit_projects: "lit ''\<newline>Projects:\<newline>'' = lit ''\<newline>Projects:'' @ lit ''\<newline>''"
  by (simp add: lit_append [symmetric])

lemma broad_prompt_lines:
  assumes "profile_shape portfolio"
  shows "\<exists>before after. create_system_prompt ucd portfolio JNull =
           Inr (before @ (lit ''\<newline>'' @ join (lit ''\<newline>'') (map (bullet_line ucd) (projects_of portfolio)) @ lit ''\<newline>'') @ after)"
proof -
  from broad_prompt_shape [OF assms] obtain base where
    "create_system_prompt ucd portfolio JNull =
             Inr (base @ lit ''\<newline>Projects:\<newline>''
                 @ join (lit ''\<newline>'') (map (bullet_line ucd) (projects_of portfolio)) @ lit ''\<newline>''
                 @ lit ''\<newline>''
                 @ lit ''Instructions:\<newline>''
                 @ lit ''- Answer about skills, projects, resume, career goals\<newline>''
                 @ lit ''- Suggest selecting a project for deep explanation\<newline>'')"
    by blast
  then have "create_system_prompt ucd portfolio JNull =
      Inr ((base @ lit ''\<newline>Projects:'')
           @ (lit ''\<newline>'' @ join (lit ''\<newline>'') (map (bullet_line ucd) (projects_of portfolio)) @ lit ''\<newline>'')
           @ (lit ''\<newline>''
                 @ lit ''Instructions:\<newline>''
                 @ lit ''- Answer about skills, projects, resume, career goals\<newline>''
                 @ lit ''- Suggest selecting a project for deep explanation\<newline>''))"
    by (simp add: lit_projects)
  then show ?thesis
    by (rule_tac x = "base @ lit ''\<newline>Projects:''" in exI) (rule exI)
qed

lemma broad_prompt_same:
  assumes "profile_shape (JObj kvs)" and "profile_shape (JObj kvs')"
    and "base_prompt ucd (JObj kvs') = base_prompt ucd (JObj kvs)"
    and "map (bullet_line ucd) (projects_of (JObj kvs')) = map (bullet_line ucd) (projects_of (JObj kvs))"
  shows "create_system_prompt ucd (JObj kvs') JNull = create_system_prompt ucd (JObj kvs) JNull"
proof -
  from assms(1,2) have "project_list ucd (JObj kvs) = Inr (join (lit ''\<newline>'') (map (bullet_line ucd) (projects_of (JObj kvs))))"
    and "project_list ucd (JObj kvs') = Inr (join (lit ''\<newline>'') (map (bullet_line ucd) (projects_of (JObj kvs'))))"
    using project_list_shape by simp_all
  with assms(4) have "project_list ucd (JObj kvs') = project_list ucd (JObj kvs)"
    by simp
  with assms(3) show ?thesis
    by (simp only: create_system_prompt_def)
qed

text \<open>
  Claim C3, as amended. For every profile of the expected shape, the prompt built with
  no selected project is a text that holds, for every project, the line
  \<^verbatim>\<open>- <name> (<type>)\<close> between two newlines, and so the project's name. The prompt reads
  nothing of a project but its name and type: two profiles that differ only in other
  fields of their projects (problem, solution, outcome and the rest) give the same
  prompt. (The text of such a field can still occur in the prompt when another rendered
  field holds it, as the third theorem below shows.)
\<close>

theorem broad_prompt_projects:
  assumes "profile_shape (JObj kvs)"
  shows "(\<exists>prompt. create_system_prompt ucd (JObj kvs) JNull = Inr prompt \<and>
           (\<forall>p \<in> set (projects_of (JObj kvs)).
              sublist (lit ''\<newline>'' @ bullet_line ucd p @ lit ''\<newline>'') prompt \<and>
              sublist (py_str ucd (field p (lit ''name''))) prompt))
     \<and> (\<forall>kvs'. profile_shape (JObj kvs') \<longrightarrow>
          (\<forall>k. k \<noteq> lit ''projects'' \<longrightarrow> map_of kvs' k = map_of kvs k) \<longrightarrow>
          map (\<lambda>p. (field p (lit ''name''), field p (lit ''type''))) (projects_of (JObj kvs')) =
            map (\<lambda>p. (field p (lit ''name''), field p (lit ''type''))) (projects_of (JObj kvs)) \<longrightarrow>
          create_system_prompt ucd (JObj kvs') JNull = create_system_prompt ucd (JObj kvs) JNull)"
proof (intro conjI allI impI)
  define listing where "listing = lit ''\<newline>'' @ join (lit ''\<newline>'') (map (bullet_line ucd) (projects_of (JObj kvs))) @ lit ''\<newline>''"
  from broad_prompt_lines [OF assms] obtain before after where
    prompt: "create_system_prompt ucd (JObj kvs) JNull = Inr (before @ listing @ after)"
    unfolding listing_def by blast
  have "sublist (lit ''\<newline>'' @ bullet_line ucd p @ lit ''\<newline>'') (before @ listing @ after) \<and>
        sublist (py_str ucd (field p (lit ''name''))) (before @ listing @ after)"
    if p: "p \<in> set (projects_of (JObj kvs))" for p
  proof -
    from p have "bullet_line ucd p \<in> set (map (bullet_line ucd) (projects_of (JObj kvs)))"
      by simp
    then have "sublist (lit ''\<newline>'' @ bullet_line ucd p @ lit ''\<newline>'') listing"
      unfolding listing_def by (rule join_member)
    then have line: "sublist (lit ''\<newline>'' @ bullet_line ucd p @ lit ''\<newline>'') (before @ listing @ after)"
      by (rule sublist_inside)
    have "sublist (py_str ucd (field p (lit ''name''))) (lit ''\<newline>'' @ bullet_line ucd p @ lit ''\<newline>'')"
      using bullet_line_name [of ucd p] by (rule sublist_inside)
    from this line have name: "sublist (py_str ucd (field p (lit ''name''))) (before @ listing @ after)"
      by (rule sublist_trans)
    from line name show ?thesis
      by (rule conjI)
  qed
  then have "\<forall>p \<in> set (projects_of (JObj kvs)).
              sublist (lit ''\<newline>'' @ bullet_line ucd p @ lit ''\<newline>'') (before @ listing @ after) \<and>
              sublist (py_str ucd (field p (lit ''name''))) (before @ listing @ after)"
    by (rule ballI)
  with prompt show "\<exists>prompt. create_system_prompt ucd (JObj kvs) JNull = Inr prompt \<and>
           (\<forall>p \<in> set (projects_of (JObj kvs)).
              sublist (lit ''\<newline>'' @ bullet_line ucd p @ lit ''\<newline>'') prompt \<and>
              sublist (py_str ucd (field p (lit ''name''))) prompt)"
    by (intro exI [of _ "before @ listing @ after"] conjI)
next
  fix kvs'
  assume shape: "profile_shape (JObj kvs')"
    and same: "\<forall>k. k \<noteq> lit ''projects'' \<longrightarrow> map_of kvs' k = map_of kvs k"
    and names: "map (\<lambda>p. (field p (lit ''name''), field p (lit ''type''))) (projects_of (JObj kvs')) =
            map (\<lambda>p. (field p (lit ''name''), field p (lit ''type''))) (projects_of (JObj kvs))"
  from same have base: "base_prompt ucd (JObj kvs') = base_prompt ucd (JObj kvs)"
    by (rule base_prompt_same)
  from names have bullets: "map (bullet_line ucd) (projects_of (JObj kvs')) =
      map (bullet_line ucd) (projects_of (JObj kvs))"
    by (rule bullet_lines_same)
  from assms shape base bullets
  show "create_system_prompt ucd (JObj kvs') JNull = create_system_prompt ucd (JObj kvs) JNull"
    by (rule broad_prompt_same)
qed

theorem broad_prompt_projects_witness:
  "(\<exists>prompt. create_system_prompt sample_unicode (JObj reports_items) JNull = Inr prompt \<and>
      sublist (lit ''\<newline>- Reports (web)\<newline>'') prompt \<and> sublist (lit ''Reports'') prompt)
   \<and> create_system_prompt sample_unicode (JObj reworded_items) JNull = create_system_prompt sample_unicode (JObj reports_items) JNull"
proof -
  have shape: "profile_shape (JObj reports_items)" and shape': "profile_shape (JObj reworded_items)"
    by code_simp+
  have listed: "JObj reports_project_items \<in> set (projects_of (JObj reports_items))"
    by (simp add: reports_items_def dict_get_def)
  have line: "bullet_line sample_unicode (JObj reports_project_items) = lit ''- Reports (web)''"
    by code_simp
  have name: "py_str sample_unicode (field (JObj reports_project_items) (lit ''name'')) = lit ''Reports''"
    by code_simp
  have same: "\<forall>k. k \<noteq> lit ''projects'' \<longrightarrow> map_of reworded_items k = map_of reports_items k"
    by (simp add: reworded_items_def reports_items_def)
  have pairs: "map (\<lambda>p. (field p (lit ''name''), field p (lit ''type''))) (projects_of (JObj reworded_items)) =
      map (\<lambda>p. (field p (lit ''name''), field p (lit ''type''))) (projects_of (JObj reports_items))"
    by code_simp
  from broad_prompt_projects [OF shape] obtain prompt where
    prompt: "create_system_prompt sample_unicode (JObj reports_items) JNull = Inr prompt" and
    lines: "\<forall>p \<in> set (projects_of (JObj reports_items)).
              sublist (lit ''\<newline>'' @ bullet_line sample_unicode p @ lit ''\<newline>'') prompt \<and>
              sublist (py_str sample_unicode (field p (lit ''name''))) prompt" and
    indep: "\<forall>kvs'. profile_shape (JObj kvs') \<longrightarrow>
          (\<forall>k. k \<noteq> lit ''projects'' \<longrightarrow> map_of kvs' k = map_of reports_items k) \<longrightarrow>
          map (\<lambda>p. (field p (lit ''name''), field p (lit ''type''))) (projects_of (JObj kvs')) =
            map (\<lambda>p. (field p (lit ''name''), field p (lit ''type''))) (projects_of (JObj reports_items)) \<longrightarrow>
          create_system_prompt sample_unicode (JObj kvs') JNull = create_system_prompt sample_unicode (JObj reports_items) JNull"
    by blast
  from lines listed have "sublist (lit ''\<newline>'' @ bullet_line sample_unicode (JObj reports_project_items) @ lit ''\<newline>'') prompt"
    and named: "sublist (py_str sample_unicode (field (JObj reports_project_items) (lit ''name''))) prompt"
    by blast+
  then have "sublist (lit ''\<newline>- Reports (web)\<newline>'') prompt"
    by (simp add: line lit_append [symmetric])
  moreover from named have "sublist (lit ''Reports'') prompt"
    by (simp only: name)
  moreover from indep shape' same pairs
  have "create_system_prompt sample_unicode (JObj reworded_items) JNull = create_system_prompt sample_unicode (JObj reports_items) JNull"
    by blast
  ultimately show ?thesis
    using prompt by blast
qed

theorem broad_prompt_projects_counterexample:
  "projects_of (JObj reports_items) = [JObj reports_project_items]
   \<and> field (JObj reports_project_items) (lit ''problem'') = JStr (lit ''slow reports'')
   \<and> prompt_contains (lit ''slow reports'') (create_system_prompt sample_unicode (JObj reports_items) JNull)"
  by code_simp

text \<open>
  Claim C4, as amended. For every profile whose skills have the expected shape and
  every selected project that is a non-empty mapping, the prompt is a text that holds
  the rendered problem, solution, tools and outcome of the project (a text is rendered
  as it is). The prompt reads nothing of the profile's \<^verbatim>\<open>projects\<close> entry: two profiles
  that differ only there give the same prompt, so no list of projects is added. (The
  text of the list can still occur in the prompt when a rendered field holds it, as the
  third theorem below shows.)
\<close>

theorem focused_prompt_fields:
  assumes "skills_shape (dict_get kvs (lit ''skills'') (JObj []))" and "f \<noteq> []"
  shows "(\<exists>prompt. create_system_prompt ucd (JObj kvs) (JObj f) = Inr prompt
           \<and> sublist (py_str ucd (field (JObj f) (lit ''problem''))) prompt
           \<and> sublist (py_str ucd (field (JObj f) (lit ''solution''))) prompt
           \<and> sublist (py_str ucd (field (JObj f) (lit ''tools''))) prompt
           \<and> sublist (py_str ucd (field (JObj f) (lit ''outcome''))) prompt)
     \<and> (\<forall>kvs'. (\<forall>k. k \<noteq> lit ''projects'' \<longrightarrow> map_of kvs' k = map_of kvs k) \<longrightarrow>
          create_system_prompt ucd (JObj kvs') (JObj f) = create_system_prompt ucd (JObj kvs) (JObj f))"
proof (intro conjI allI impI)
  from base_prompt_shape [OF assms(1)] obtain base where b: "base_prompt ucd (JObj kvs) = Inr base"
    by blast
  from selected_block_contains [of ucd f] obtain block where
    s: "selected_block ucd (JObj f) = Inr block" and
    c: "sublist (py_str ucd (dict_get f (lit ''problem'') JNull)) block"
       "sublist (py_str ucd (dict_get f (lit ''solution'') JNull)) block"
       "sublist (py_str ucd (dict_get f (lit ''tools'') JNull)) block"
       "sublist (py_str ucd (dict_get f (lit ''outcome'') JNull)) block"
    by blast
  from b s assms(2) have "create_system_prompt ucd (JObj kvs) (JObj f) = Inr (base @ block)"
    by (simp add: create_system_prompt_def)
  moreover from c have
       "sublist (py_str ucd (field (JObj f) (lit ''problem''))) (base @ block)"
       "sublist (py_str ucd (field (JObj f) (lit ''solution''))) (base @ block)"
       "sublist (py_str ucd (field (JObj f) (lit ''tools''))) (base @ block)"
       "sublist (py_str ucd (field (JObj f) (lit ''outcome''))) (base @ block)"
    by (simp_all add: sublist_skip)
  ultimately show "\<exists>prompt. create_system_prompt ucd (JObj kvs) (JObj f) = Inr prompt
           \<and> sublist (py_str ucd (field (JObj f) (lit ''problem''))) prompt
           \<and> sublist (py_str ucd (field (JObj f) (lit ''solution''))) prompt
           \<and> sublist (py_str ucd (field (JObj f) (lit ''tools''))) prompt
           \<and> sublist (py_str ucd (field (JObj f) (lit ''outcome''))) prompt"
    by (intro exI [of _ "base @ block"] conjI)
next
  fix kvs'
  assume "\<forall>k. k \<noteq> lit ''projects'' \<longrightarrow> map_of kvs' k = map_of kvs k"
  then have "base_prompt ucd (JObj kvs') = base_prompt ucd (JObj kvs)"
    by (rule base_prompt_same)
  moreover from assms(2) have "truthy (JObj f)"
    by simp
  ultimately show "create_system_prompt ucd (JObj kvs') (JObj f) = create_system_prompt ucd (JObj kvs) (JObj f)"
    by (simp only: create_system_prompt_def if_True)
qed

theorem focused_prompt_fields_witness:
  "(\<exists>prompt. create_system_prompt sample_unicode (JObj reports_items) (JObj reports_project_items) = Inr prompt
      \<and> sublist (lit ''slow reports'') prompt \<and> sublist (lit ''caching'') prompt
      \<and> sublist (py_str sample_unicode (JArr [JStr (lit ''Python'')])) prompt \<and> sublist (lit ''faster'') prompt)
   \<and> create_system_prompt sample_unicode (JObj no_projects_items) (JObj reports_project_items) =
       create_system_prompt sample_unicode (JObj reports_items) (JObj reports_project_items)"
proof -
  have skills: "skills_shape (dict_get reports_items (lit ''skills'') (JObj []))"
    by code_simp
  have ne: "reports_project_items \<noteq> []"
    by (simp add: reports_project_items_def)
  have fields:
    "py_str sample_unicode (field (JObj reports_project_items) (lit ''problem'')) = lit ''slow reports''"
    "py_str sample_unicode (field (JObj reports_project_items) (lit ''solution'')) = lit ''caching''"
    "field (JObj reports_project_items) (lit ''tools'') = JArr [JStr (lit ''Python'')]"
    "py_str sample_unicode (field (JObj reports_project_items) (lit ''outcome'')) = lit ''faster''"
    by code_simp+
  have same: "\<forall>k. k \<noteq> lit ''projects'' \<longrightarrow> map_of no_projects_items k = map_of reports_items k"
    by (simp add: no_projects_items_def reports_items_def)
  from focused_prompt_fields [OF skills ne] obtain prompt where
    prompt: "create_system_prompt sample_unicode (JObj reports_items) (JObj reports_project_items) = Inr prompt" and
    holds: "sublist (py_str sample_unicode (field (JObj reports_project_items) (lit ''problem''))) prompt"
      "sublist (py_str sample_unicode (field (JObj reports_project_items) (lit ''solution''))) prompt"
      "sublist (py_str sample_unicode (field (JObj reports_project_items) (lit ''tools''))) prompt"
      "sublist (py_str sample_unicode (field (JObj reports_project_items) (lit ''outcome''))) prompt" and
    indep: "\<forall>kvs'. (\<forall>k. k \<noteq> lit ''projects'' \<longrightarrow> map_of kvs' k = map_of reports_items k) \<longrightarrow>
          create_system_prompt sample_unicode (JObj kvs') (JObj reports_project_items) =
            create_system_prompt sample_unicode (JObj reports_items) (JObj reports_project_items)"
    by blast
  from holds have "sublist (lit ''slow reports'') prompt" "sublist (lit ''caching'') prompt"
    "sublist (py_str sample_unicode (JArr [JStr (lit ''Python'')])) prompt" "sublist (lit ''faster'') prompt"
    by (simp_all only: fields)
  moreover from indep same
  have "create_system_prompt sample_unicode (JObj no_projects_items) (JObj reports_project_items) =
       create_system_prompt sample_unicode (JObj reports_items) (JObj reports_project_items)"
    by blast
  ultimately show ?thesis
    using prompt by blast
qed

theorem focused_prompt_fields_counterexample:
  "projects_of (JObj listing_portfolio_items) = [JObj listing_project_items]
   \<and> project_list sample_unicode (JObj listing_portfolio_items) = Inr (lit ''- X (web)'')
   \<and> prompt_contains (lit ''- X (web)'')
        (create_system_prompt sample_unicode (JObj listing_portfolio_items) (JObj listing_project_items))"
  by code_simp

subsection \<open>Absent fields\<close>

lemma dict_get_added_other:
  "map_of kvs k = None \<Longrightarrow> k' \<noteq> k \<Longrightarrow> dict_get (kvs @ [(k, v)]) k' d = dict_get kvs k' d"
  by (simp add: dict_get_def map_add_def split: option.splits)

lemma dict_get_added_same:
  "map_of kvs k = None \<Longrightarrow> dict_get (kvs @ [(k, v)]) k d = v"
  by (simp add: dict_get_def map_add_def)

lemma py_str_placeholder:
  "map_of kvs k = None \<Longrightarrow>
     py_str ucd (dict_get (kvs @ [(k, JStr (lit ''None''))]) k' JNull) = py_str ucd (dict_get kvs k' JNull)"
proof (cases "k' = k")
  case True
  assume "map_of kvs k = None"
  then show ?thesis
    by (simp add: True dict_get_added_same) (simp add: dict_get_def)
next
  case False
  assume "map_of kvs k = None"
  then show ?thesis
    by (simp add: False dict_get_added_other)
qed

lemma base_prompt_placeholder:
  assumes "map_of kvs k = None" and "k \<noteq> lit ''skills''"
  shows "base_prompt ucd (JObj (kvs @ [(k, JStr (lit ''None''))])) = base_prompt ucd (JObj kvs)"
proof -
  have "dict_get (kvs @ [(k, JStr (lit ''None''))]) (lit ''skills'') (JObj []) = dict_get kvs (lit ''skills'') (JObj [])"
    using assms by (simp add: dict_get_added_other)
  then show ?thesis
    by (simp add: base_prompt_def py_str_placeholder [OF assms(1)])
qed

lemma project_list_placeholder:
  assumes "map_of kvs k = None" and "k \<noteq> lit ''projects''"
  shows "project_list ucd (JObj (kvs @ [(k, JStr (lit ''None''))])) = project_list ucd (JObj kvs)"
  using assms by (simp add: project_list_def dict_get_added_other)

lemma selected_block_placeholder:
  assumes "map_of kvs k = None"
  shows "selected_block ucd (JObj (kvs @ [(k, JStr (lit ''None''))])) = selected_block ucd (JObj kvs)"
  by (simp add: selected_block_def py_str_placeholder [OF assms])

lemma absent_renders_None:
  "map_of kvs k = None \<Longrightarrow> py_str ucd (dict_get kvs k JNull) = lit ''None''"
  by (simp add: dict_get_def)

lemma sublist_here3: "sublist (a @ x @ b) (a @ x @ b @ r)"
proof -
  have "a @ x @ b @ r = [] @ (a @ x @ b) @ r"
    by simp
  then show ?thesis
    unfolding sublist_def by blast
qed

lemma sublist_front: "sublist x ys \<Longrightarrow> sublist x (ys @ zs)"
  unfolding sublist_def by (metis append_assoc)

lemma base_prompt_fields:
  assumes "format_skills ucd (dict_get kvs (lit ''skills'') (JObj [])) = Inr skills"
  shows "\<exists>base. base_prompt ucd (JObj kvs) = Inr base \<and>
           list_all (\<lambda>(k, before, after).
                       sublist (before @ py_str ucd (dict_get kvs k JNull) @ after) base)
             content_fields"
  unfolding base_prompt_def content_fields_def
  apply (simp only: py_get.simps and_then_Inr assms)
  apply (rule exI, rule conjI, rule refl)
  apply (simp only: list_all_Nil_iff list_all_Cons_iff prod.case)
  apply (intro conjI TrueI)
      apply (rule sublist_here3 | rule sublist_skip)+
  done

lemma selected_block_fields:
  "\<exists>block. selected_block ucd (JObj f) = Inr block \<and>
           list_all (\<lambda>(k, before, after).
                       sublist (before @ py_str ucd (dict_get f k JNull) @ after) block)
             project_fields"
  unfolding selected_block_def project_fields_def
  apply (simp only: py_get.simps and_then_Inr)
  apply (rule exI, rule conjI, rule refl)
  apply (simp only: list_all_Nil_iff list_all_Cons_iff prod.case)
  apply (intro conjI TrueI)
        apply (rule sublist_here3 | rule sublist_skip)+
  done

lemma broad_prompt_bullets:
  assumes "profile_shape portfolio"
  shows "\<exists>prompt. create_system_prompt ucd portfolio JNull = Inr prompt \<and>
           (\<forall>p \<in> set (projects_of portfolio).
              sublist (lit ''\<newline>'' @ bullet_line ucd p @ lit ''\<newline>'') prompt)"
proof -
  define listing where
    "listing = lit ''\<newline>'' @ join (lit ''\<newline>'') (map (bullet_line ucd) (projects_of portfolio)) @ lit ''\<newline>''"
  from broad_prompt_lines [OF assms] obtain before after where
    prompt: "create_system_prompt ucd portfolio JNull = Inr (before @ listing @ after)"
    unfolding listing_def by blast
  have "sublist (lit ''\<newline>'' @ bullet_line ucd p @ lit ''\<newline>'') (before @ listing @ after)"
    if p: "p \<in> set (projects_of portfolio)" for p
  proof -
    from p have "bullet_line ucd p \<in> set (map (bullet_line ucd) (projects_of portfolio))"
      by simp
    then have "sublist (lit ''\<newline>'' @ bullet_line ucd p @ lit ''\<newline>'') listing"
      unfolding listing_def by (rule join_member)
    then show ?thesis
      by (rule sublist_inside)
  qed
  then have "\<forall>p \<in> set (projects_of portfolio).
      sublist (lit ''\<newline>'' @ bullet_line ucd p @ lit ''\<newline>'') (before @ listing @ after)"
    by (rule ballI)
  with prompt show ?thesis
    by (intro exI [of _ "before @ listing @ after"] conjI)
qed

lemma content_fields_keys:
  "(k, before, after) \<in> set content_fields \<Longrightarrow> k \<noteq> lit ''skills'' \<and> k \<noteq> lit ''projects''"
  by (auto simp: content_fields_def)

lemma prompt_placeholder:
  assumes "map_of kvs k = None" and "k \<noteq> lit ''skills''" and "k \<noteq> lit ''projects''"
  shows "create_system_prompt ucd (JObj (kvs @ [(k, JStr (lit ''None''))])) focus =
         create_system_prompt ucd (JObj kvs) focus"
proof -
  from assms
  have "base_prompt ucd (JObj (kvs @ [(k, JStr (lit ''None''))])) = base_prompt ucd (JObj kvs)"
    and "project_list ucd (JObj (kvs @ [(k, JStr (lit ''None''))])) = project_list ucd (JObj kvs)"
    by (simp_all add: base_prompt_placeholder project_list_placeholder)
  then show ?thesis
    by (simp only: create_system_prompt_def)
qed

lemma focus_placeholder:
  assumes "map_of f k = None" and "f \<noteq> []"
  shows "create_system_prompt ucd portfolio (JObj (f @ [(k, JStr (lit ''None''))])) =
         create_system_prompt ucd portfolio (JObj f)"
  using assms by (simp add: create_system_prompt_def selected_block_placeholder)

text \<open>
  Claim C8. For every profile of the expected shape, whatever content fields are absent,
  building the prompt returns a string, with no selected project or with a project
  mapping selected, and each absent field is in the string as the placeholder
  \<^verbatim>\<open>None\<close>: for an absent content field of the profile the prompt holds the field's
  label followed by \<^verbatim>\<open>None\<close>, and it is the prompt of the profile with the string
  \<^verbatim>\<open>None\<close> stored under that key; the same for an absent field of the selected project;
  and the bullet of a listed project without a name or a type holds \<^verbatim>\<open>None\<close> in its
  place.
\<close>

theorem missing_fields:
  assumes "profile_shape (JObj kvs)"
    and "focus = JNull \<or> is_dict focus"
  shows "\<exists>prompt. create_system_prompt ucd (JObj kvs) focus = Inr prompt \<and>
     (\<forall>(k, before, after) \<in> set content_fields. map_of kvs k = None \<longrightarrow>
          sublist (before @ lit ''None'' @ after) prompt \<and>
          create_system_prompt ucd (JObj (kvs @ [(k, JStr (lit ''None''))])) focus = Inr prompt) \<and>
     (\<forall>f. focus = JObj f \<longrightarrow> f \<noteq> [] \<longrightarrow>
        (\<forall>(k, before, after) \<in> set project_fields. map_of f k = None \<longrightarrow>
            sublist (before @ lit ''None'' @ after) prompt \<and>
            create_system_prompt ucd (JObj kvs) (JObj (f @ [(k, JStr (lit ''None''))])) = Inr prompt)) \<and>
     (\<not> truthy focus \<longrightarrow>
        (\<forall>f. JObj f \<in> set (projects_of (JObj kvs)) \<longrightarrow>
           (map_of f (lit ''name'') = None \<longrightarrow>
              sublist (lit ''\<newline>'' @ (lit ''- '' @ lit ''None'' @ lit '' (''
                         @ py_str ucd (field (JObj f) (lit ''type'')) @ lit '')'') @ lit ''\<newline>'')
                prompt) \<and>
           (map_of f (lit ''type'') = None \<longrightarrow>
              sublist (lit ''\<newline>'' @ (lit ''- '' @ py_str ucd (field (JObj f) (lit ''name''))
                         @ lit '' ('' @ lit ''None'' @ lit '')'') @ lit ''\<newline>'')
                prompt)))"
proof -
  from assms(1) have skills: "skills_shape (dict_get kvs (lit ''skills'') (JObj []))"
    by simp
  then obtain rendered where
    rendered: "format_skills ucd (dict_get kvs (lit ''skills'') (JObj [])) = Inr rendered"
    using format_skills_shape by blast
  from base_prompt_fields [OF rendered] obtain base where
    base: "base_prompt ucd (JObj kvs) = Inr base" and
    in_base: "list_all (\<lambda>(k, before, after).
                 sublist (before @ py_str ucd (dict_get kvs k JNull) @ after) base) content_fields"
    by blast
  have content: "sublist (before @ lit ''None'' @ after) (base @ rest) \<and>
      create_system_prompt ucd (JObj (kvs @ [(k, JStr (lit ''None''))])) focus =
        create_system_prompt ucd (JObj kvs) focus"
    if mem: "(k, before, after) \<in> set content_fields" and absent: "map_of kvs k = None"
    for k before after rest
  proof -
    from in_base mem have "sublist (before @ py_str ucd (dict_get kvs k JNull) @ after) base"
      by (auto simp: list_all_iff)
    then have "sublist (before @ lit ''None'' @ after) base"
      by (simp only: absent_renders_None [OF absent])
    then have "sublist (before @ lit ''None'' @ after) (base @ rest)"
      by (rule sublist_front)
    moreover from content_fields_keys [OF mem] absent
    have "create_system_prompt ucd (JObj (kvs @ [(k, JStr (lit ''None''))])) focus =
        create_system_prompt ucd (JObj kvs) focus"
      by (simp add: prompt_placeholder)
    ultimately show ?thesis
      by (rule conjI)
  qed
  show ?thesis
  proof (cases "truthy focus")
    case True
    with assms(2) obtain f where f: "focus = JObj f" and ne: "f \<noteq> []"
      by (cases focus) auto
    from selected_block_fields [of ucd f] obtain block where
      block: "selected_block ucd (JObj f) = Inr block" and
      in_block: "list_all (\<lambda>(k, before, after).
                   sublist (before @ py_str ucd (dict_get f k JNull) @ after) block) project_fields"
      by blast
    from base block ne have prompt: "create_system_prompt ucd (JObj kvs) (JObj f) = Inr (base @ block)"
      by (simp add: create_system_prompt_def)
    have project: "sublist (before @ lit ''None'' @ after) (base @ block) \<and>
        create_system_prompt ucd (JObj kvs) (JObj (f @ [(k, JStr (lit ''None''))])) = Inr (base @ block)"
      if mem: "(k, before, after) \<in> set project_fields" and absent: "map_of f k = None"
      for k before after
    proof -
      from in_block mem have "sublist (before @ py_str ucd (dict_get f k JNull) @ after) block"
        by (auto simp: list_all_iff)
      then have "sublist (before @ lit ''None'' @ after) block"
        by (simp only: absent_renders_None [OF absent])
      then have "sublist (before @ lit ''None'' @ after) (base @ block)"
        by (rule sublist_skip)
      moreover from focus_placeholder [OF absent ne] prompt
      have "create_system_prompt ucd (JObj kvs) (JObj (f @ [(k, JStr (lit ''None''))])) = Inr (base @ block)"
        by simp
      ultimately show ?thesis
        by (rule conjI)
    qed
    show ?thesis
    proof (intro exI [of _ "base @ block"] conjI)
      from prompt f show "create_system_prompt ucd (JObj kvs) focus = Inr (base @ block)"
        by simp
      from content [where rest = block] prompt f
      show "\<forall>(k, before, after) \<in> set content_fields. map_of kvs k = None \<longrightarrow>
          sublist (before @ lit ''None'' @ after) (base @ block) \<and>
          create_system_prompt ucd (JObj (kvs @ [(k, JStr (lit ''None''))])) focus = Inr (base @ block)"
        by auto
      from project f
      show "\<forall>g. focus = JObj g \<longrightarrow> g \<noteq> [] \<longrightarrow>
        (\<forall>(k, before, after) \<in> set project_fields. map_of g k = None \<longrightarrow>
            sublist (before @ lit ''None'' @ after) (base @ block) \<and>
            create_system_prompt ucd (JObj kvs) (JObj (g @ [(k, JStr (lit ''None''))])) = Inr (base @ block))"
        by auto
      from True show "\<not> truthy focus \<longrightarrow>
        (\<forall>g. JObj g \<in> set (projects_of (JObj kvs)) \<longrightarrow>
           (map_of g (lit ''name'') = None \<longrightarrow>
              sublist (lit ''\<newline>'' @ (lit ''- '' @ lit ''None'' @ lit '' (''
                         @ py_str ucd (field (JObj g) (lit ''type'')) @ lit '')'') @ lit ''\<newline>'')
                (base @ block)) \<and>
           (map_of g (lit ''type'') = None \<longrightarrow>
              sublist (lit ''\<newline>'' @ (lit ''- '' @ py_str ucd (field (JObj g) (lit ''name''))
                         @ lit '' ('' @ lit ''None'' @ lit '')'') @ lit ''\<newline>'')
                (base @ block)))"
        by simp
    qed
  next
    case False
    then have same: "create_system_prompt ucd portfolio focus = create_system_prompt ucd portfolio JNull"
      for portfolio
      by (simp add: create_system_prompt_def)
    from broad_prompt_bullets [OF assms(1), of ucd] obtain prompt where
      prompt: "create_system_prompt ucd (JObj kvs) JNull = Inr prompt" and
      bullets: "\<forall>p \<in> set (projects_of (JObj kvs)).
                  sublist (lit ''\<newline>'' @ bullet_line ucd p @ lit ''\<newline>'') prompt"
      by blast
    from prompt base obtain rest where rest: "prompt = base @ rest"
      by (auto simp: create_system_prompt_def and_then_eq_Inr)
    have bullet: "(map_of g (lit ''name'') = None \<longrightarrow>
              sublist (lit ''\<newline>'' @ (lit ''- '' @ lit ''None'' @ lit '' (''
                         @ py_str ucd (field (JObj g) (lit ''type'')) @ lit '')'') @ lit ''\<newline>'')
                prompt) \<and>
           (map_of g (lit ''type'') = None \<longrightarrow>
              sublist (lit ''\<newline>'' @ (lit ''- '' @ py_str ucd (field (JObj g) (lit ''name''))
                         @ lit '' ('' @ lit ''None'' @ lit '')'') @ lit ''\<newline>'')
                prompt)"
      if listed: "JObj g \<in> set (projects_of (JObj kvs))" for g
    proof -
      from bullets listed
      have line: "sublist (lit ''\<newline>'' @ bullet_line ucd (JObj g) @ lit ''\<newline>'') prompt"
        by blast
      have "bullet_line ucd (JObj g) =
          lit ''- '' @ lit ''None'' @ lit '' ('' @ py_str ucd (field (JObj g) (lit ''type'')) @ lit '')''"
        if "map_of g (lit ''name'') = None"
        using that by (simp add: bullet_line_def dict_get_def)
      moreover have "bullet_line ucd (JObj g) =
          lit ''- '' @ py_str ucd (field (JObj g) (lit ''name'')) @ lit '' ('' @ lit ''None'' @ lit '')''"
        if "map_of g (lit ''type'') = None"
        using that by (simp add: bullet_line_def dict_get_def)
      ultimately show ?thesis
        using line by metis
    qed
    show ?thesis
    proof (intro exI [of _ prompt] conjI)
      from prompt same show "create_system_prompt ucd (JObj kvs) focus = Inr prompt"
        by simp
      from content [where rest = rest] prompt same rest
      show "\<forall>(k, before, after) \<in> set content_fields. map_of kvs k = None \<longrightarrow>
          sublist (before @ lit ''None'' @ after) prompt \<and>
          create_system_prompt ucd (JObj (kvs @ [(k, JStr (lit ''None''))])) focus = Inr prompt"
        by auto
      from False show "\<forall>g. focus = JObj g \<longrightarrow> g \<noteq> [] \<longrightarrow>
        (\<forall>(k, before, after) \<in> set project_fields. map_of g k = None \<longrightarrow>
            sublist (before @ lit ''None'' @ after) prompt \<and>
            create_system_prompt ucd (JObj kvs) (JObj (g @ [(k, JStr (lit ''None''))])) = Inr prompt)"
        by auto
      from bullet show "\<not> truthy focus \<longrightarrow>
        (\<forall>g. JObj g \<in> set (projects_of (JObj kvs)) \<longrightarrow>
           (map_of g (lit ''name'') = None \<longrightarrow>
              sublist (lit ''\<newline>'' @ (lit ''- '' @ lit ''None'' @ lit '' (''
                         @ py_str ucd (field (JObj g) (lit ''type'')) @ lit '')'') @ lit ''\<newline>'')
                prompt) \<and>
           (map_of g (lit ''type'') = None \<longrightarrow>
              sublist (lit ''\<newline>'' @ (lit ''- '' @ py_str ucd (field (JObj g) (lit ''name''))
                         @ lit '' ('' @ lit ''None'' @ lit '')'') @ lit ''\<newline>'')
                prompt))"
        by blast
    qed
  qed
qed

theorem missing_fields_witness:
  "(\<exists>prompt. create_system_prompt sample_unicode (JObj untyped_portfolio_items) (JObj untyped_items) =
        Inr prompt
      \<and> sublist (lit ''Education: '' @ lit ''None'' @ lit ''\<newline>'') prompt
      \<and> sublist (lit ''Problem:\<newline>'' @ lit ''None'' @ lit ''\<newline>'') prompt)
   \<and> (\<exists>prompt. create_system_prompt sample_unicode (JObj untyped_portfolio_items) JNull = Inr prompt
      \<and> sublist (lit ''Profile Summary:\<newline>'' @ lit ''None'' @ lit ''\<newline>'') prompt
      \<and> sublist (lit ''\<newline>'' @ (lit ''- '' @ lit ''U'' @ lit '' ('' @ lit ''None'' @ lit '')'')
                   @ lit ''\<newline>'') prompt)"
proof (rule conjI)
  have shape: "profile_shape (JObj untyped_portfolio_items)"
    by code_simp
  have education: "(lit ''education'', lit ''Education: '', lit ''\<newline>'') \<in> set content_fields"
    and summary: "(lit ''summary'', lit ''Profile Summary:\<newline>'', lit ''\<newline>'') \<in> set content_fields"
    by (simp_all add: content_fields_def)
  have problem: "(lit ''problem'', lit ''Problem:\<newline>'', lit ''\<newline>'') \<in> set project_fields"
    by (simp add: project_fields_def)
  have no_education: "map_of untyped_portfolio_items (lit ''education'') = None"
    and no_summary: "map_of untyped_portfolio_items (lit ''summary'') = None"
    by (simp_all add: untyped_portfolio_items_def)
  have no_problem: "map_of untyped_items (lit ''problem'') = None"
    and no_type: "map_of untyped_items (lit ''type'') = None"
    by (simp_all add: untyped_items_def)
  have ne: "untyped_items \<noteq> []"
    by (simp add: untyped_items_def)
  have listed: "JObj untyped_items \<in> set (projects_of (JObj untyped_portfolio_items))"
    by (simp add: untyped_portfolio_items_def dict_get_def)
  have name: "py_str sample_unicode (field (JObj untyped_items) (lit ''name'')) = lit ''U''"
    by (simp add: untyped_items_def dict_get_def)
  have focused: "JObj untyped_items = JNull \<or> is_dict (JObj untyped_items)"
    by simp
  from missing_fields [OF shape focused, of sample_unicode] obtain prompt where
    prompt: "create_system_prompt sample_unicode (JObj untyped_portfolio_items) (JObj untyped_items) =
        Inr prompt" and
    content: "\<forall>(k, before, after) \<in> set content_fields.
        map_of untyped_portfolio_items k = None \<longrightarrow>
          sublist (before @ lit ''None'' @ after) prompt \<and>
          create_system_prompt sample_unicode
            (JObj (untyped_portfolio_items @ [(k, JStr (lit ''None''))])) (JObj untyped_items) = Inr prompt" and
    project: "\<forall>f. JObj untyped_items = JObj f \<longrightarrow> f \<noteq> [] \<longrightarrow>
        (\<forall>(k, before, after) \<in> set project_fields. map_of f k = None \<longrightarrow>
            sublist (before @ lit ''None'' @ after) prompt \<and>
            create_system_prompt sample_unicode (JObj untyped_portfolio_items)
              (JObj (f @ [(k, JStr (lit ''None''))])) = Inr prompt)"
    by blast
  from content education no_education
  have 1: "sublist (lit ''Education: '' @ lit ''None'' @ lit ''\<newline>'') prompt"
    by fastforce
  from project ne have "\<forall>(k, before, after) \<in> set project_fields. map_of untyped_items k = None \<longrightarrow>
            sublist (before @ lit ''None'' @ after) prompt \<and>
            create_system_prompt sample_unicode (JObj untyped_portfolio_items)
              (JObj (untyped_items @ [(k, JStr (lit ''None''))])) = Inr prompt"
    by blast
  with problem no_problem
  have 2: "sublist (lit ''Problem:\<newline>'' @ lit ''None'' @ lit ''\<newline>'') prompt"
    by fastforce
  from prompt 1 2
  show "\<exists>prompt. create_system_prompt sample_unicode (JObj untyped_portfolio_items) (JObj untyped_items) =
        Inr prompt
      \<and> sublist (lit ''Education: '' @ lit ''None'' @ lit ''\<newline>'') prompt
      \<and> sublist (lit ''Problem:\<newline>'' @ lit ''None'' @ lit ''\<newline>'') prompt"
    by (intro exI [of _ prompt] conjI)
  have broad: "JNull = JNull \<or> is_dict JNull"
    by simp
  from missing_fields [OF shape broad, of sample_unicode] obtain listing where
    listing: "create_system_prompt sample_unicode (JObj untyped_portfolio_items) JNull = Inr listing" and
    content': "\<forall>(k, before, after) \<in> set content_fields.
        map_of untyped_portfolio_items k = None \<longrightarrow>
          sublist (before @ lit ''None'' @ after) listing \<and>
          create_system_prompt sample_unicode
            (JObj (untyped_portfolio_items @ [(k, JStr (lit ''None''))])) JNull = Inr listing" and
    bullets: "\<not> truthy JNull \<longrightarrow>
        (\<forall>f. JObj f \<in> set (projects_of (JObj untyped_portfolio_items)) \<longrightarrow>
           (map_of f (lit ''name'') = None \<longrightarrow>
              sublist (lit ''\<newline>'' @ (lit ''- '' @ lit ''None'' @ lit '' (''
                         @ py_str sample_unicode (field (JObj f) (lit ''type'')) @ lit '')'') @ lit ''\<newline>'')
                listing) \<and>
           (map_of f (lit ''type'') = None \<longrightarrow>
              sublist (lit ''\<newline>'' @ (lit ''- '' @ py_str sample_unicode (field (JObj f) (lit ''name''))
                         @ lit '' ('' @ lit ''None'' @ lit '')'') @ lit ''\<newline>'')
                listing))"
    by blast
  from content' summary no_summary
  have 3: "sublist (lit ''Profile Summary:\<newline>'' @ lit ''None'' @ lit ''\<newline>'') listing"
    by fastforce
  from bullets listed no_type
  have "sublist (lit ''\<newline>'' @ (lit ''- '' @ py_str sample_unicode (field (JObj untyped_items) (lit ''name''))
                         @ lit '' ('' @ lit ''None'' @ lit '')'') @ lit ''\<newline>'') listing"
    by simp
  then have 4: "sublist (lit ''\<newline>'' @ (lit ''- '' @ lit ''U'' @ lit '' ('' @ lit ''None'' @ lit '')'')
                   @ lit ''\<newline>'') listing"
    by (simp only: name)
  from listing 3 4
  show "\<exists>prompt. create_system_prompt sample_unicode (JObj untyped_portfolio_items) JNull = Inr prompt
      \<and> sublist (lit ''Profile Summary:\<newline>'' @ lit ''None'' @ lit ''\<newline>'') prompt
      \<and> sublist (lit ''\<newline>'' @ (lit ''- '' @ lit ''U'' @ lit '' ('' @ lit ''None'' @ lit '')'')
                   @ lit ''\<newline>'') prompt"
    by (intro exI [of _ listing] conjI)
qed

end
